theory Spec2Isabelle
  imports
    Main
    "HOL-Library.Sublist"
    "HOL-Library.Char_ord"
    "HOL-Library.List_Lexorder"
    "HOL-Library.AList"
    "HOL-Library.Multiset"
begin

section \<open>Python strings\<close>

text \<open>
  A Python \<open>str\<close> is modelled as \<open>string\<close> (a list of characters); the order on
  strings is the lexicographic order on character codes, as Python's \<open><\<close> on \<open>str\<close>.
  The operations below are the \<open>str\<close> methods that \<open>create_headers.py\<close> calls.
\<close>

text \<open>\<open>sub in s\<close>\<close>

fun str_in :: "string \<Rightarrow> string \<Rightarrow> bool" where
  "str_in sub [] = (sub = [])"
| "str_in sub (c # cs) = (prefix sub (c # cs) \<or> str_in sub cs)"

text \<open>\<open>s.startswith(p)\<close> and \<open>s.endswith(p)\<close>\<close>

definition startswith :: "string \<Rightarrow> string \<Rightarrow> bool" where
  "startswith s p = prefix p s"

definition endswith :: "string \<Rightarrow> string \<Rightarrow> bool" where
  "endswith s p = prefix (rev p) (rev s)"

text \<open>\<open>s.replace(old, new)\<close>: every non-overlapping occurrence, from the left.\<close>

function str_replace :: "string \<Rightarrow> string \<Rightarrow> string \<Rightarrow> string" where
  "str_replace old new [] = (if old = [] then new else [])"
| "str_replace old new (c # cs) =
     (if old = [] then new @ c # str_replace old new cs
      else if prefix old (c # cs) then new @ str_replace old new (drop (length old) (c # cs))
      else c # str_replace old new cs)"
  by pat_completeness auto
termination
  by (relation "measure (\<lambda>(old, new, s). length s)") (auto simp: Suc_le_eq)

text \<open>\<open>s.split(sep)\<close> for a one-character separator: empty pieces are kept.\<close>

fun str_split :: "char \<Rightarrow> string \<Rightarrow> string list" where
  "str_split sep [] = [[]]"
| "str_split sep (c # cs) =
     (if c = sep then [] # str_split sep cs
      else (case str_split sep cs of
              [] \<Rightarrow> [[c]]
            | w # ws \<Rightarrow> (c # w) # ws))"

text \<open>\<open>s.split(sep, 2)\<close>: at most two splits, the rest is the last piece.\<close>

fun str_split_max :: "char \<Rightarrow> nat \<Rightarrow> string \<Rightarrow> string list" where
  "str_split_max sep 0 s = [s]"
| "str_split_max sep (Suc n) [] = [[]]"
| "str_split_max sep (Suc n) (c # cs) =
     (if c = sep then [] # str_split_max sep n cs
      else (case str_split_max sep (Suc n) cs of
              [] \<Rightarrow> [[c]]
            | w # ws \<Rightarrow> (c # w) # ws))"

text \<open>\<open>s.rsplit(sep, 1)[-1]\<close>: what follows the last separator, or all of \<open>s\<close>.\<close>

definition rsplit_last :: "char \<Rightarrow> string \<Rightarrow> string" where
  "rsplit_last sep s = rev (takeWhile (\<lambda>c. c \<noteq> sep) (rev s))"

text \<open>
  Line boundaries of \<open>str.splitlines()\<close> among the characters below 256:
  \<open>\n\<close>, \<open>\v\<close>, \<open>\f\<close>, \<open>\r\<close>, \<open>\x1c\<close>, \<open>\x1d\<close>, \<open>\x1e\<close>, \<open>\x85\<close>;
  \<open>\r\n\<close> is one boundary, and there is no empty last line.
\<close>

definition is_linebreak :: "char \<Rightarrow> bool" where
  "is_linebreak c = (of_char c \<in> {10, 11, 12, 13, 28, 29, 30, 133 :: nat})"

fun splitlines_acc :: "string \<Rightarrow> string \<Rightarrow> string list" where
  "splitlines_acc acc [] = (if acc = [] then [] else [rev acc])"
| "splitlines_acc acc (c # cs) =
     (if is_linebreak c then
        rev acc # splitlines_acc []
          (if of_char c = (13::nat) \<and> cs \<noteq> [] \<and> of_char (hd cs) = (10::nat) then tl cs else cs)
      else splitlines_acc (c # acc) cs)"

definition splitlines :: "string \<Rightarrow> string list" where
  "splitlines s = splitlines_acc [] s"

text \<open>White space of \<open>str.strip()\<close> among the characters below 256.\<close>

definition is_space :: "char \<Rightarrow> bool" where
  "is_space c = (of_char c \<in> {9, 10, 11, 12, 13, 28, 29, 30, 31, 32, 133, 160 :: nat})"

definition strip :: "string \<Rightarrow> string" where
  "strip s = rev (dropWhile is_space (rev (dropWhile is_space s)))"

text \<open>\<open>sep.join(xs)\<close>\<close>

fun join :: "string \<Rightarrow> string list \<Rightarrow> string" where
  "join sep [] = []"
| "join sep [x] = x"
| "join sep (x # y # ys) = x @ sep @ join sep (y # ys)"

section \<open>Helpers of the script\<close>

text \<open>\<open>sort_key\<close>: e.g., sort 'INT8' before 'INT16'.\<close>

definition sort_key_str :: "string \<Rightarrow> string" where
  "sort_key_str s = str_replace ''8'' ''08'' s"

definition has_complex :: "string \<Rightarrow> bool" where
  "has_complex s = (str_in ''FC32'' s \<or> str_in ''FC64'' s)"

definition AUTO :: string where
  "AUTO = ''/* This file is automatically generated */''"

text \<open>The module-level tables. A Python \<open>set\<close> of strings is a list without duplicates.\<close>

definition DEPRECATED :: "string list" where
  "DEPRECATED =
   [''GxB_IS_HYPER'', ''GrB_SCMP'', ''GxB_kron'', ''GxB_Matrix_resize'',
    ''GxB_Vector_resize'', ''GxB_ABS_BOOL'', ''GxB_ABS_INT8'', ''GxB_ABS_INT16'',
    ''GxB_ABS_INT32'', ''GxB_ABS_INT64'', ''GxB_ABS_UINT8'', ''GxB_ABS_UINT16'',
    ''GxB_ABS_UINT32'', ''GxB_ABS_UINT64'', ''GxB_ABS_FP32'', ''GxB_ABS_FP64'',
    ''GxB_MIN_INT8_MONOID'', ''GxB_MIN_INT16_MONOID'', ''GxB_MIN_INT32_MONOID'',
    ''GxB_MIN_INT64_MONOID'', ''GxB_MIN_UINT8_MONOID'', ''GxB_MIN_UINT16_MONOID'',
    ''GxB_MIN_UINT32_MONOID'', ''GxB_MIN_UINT64_MONOID'', ''GxB_MIN_FP32_MONOID'',
    ''GxB_MIN_FP64_MONOID'', ''GxB_MAX_INT8_MONOID'', ''GxB_MAX_INT16_MONOID'',
    ''GxB_MAX_INT32_MONOID'', ''GxB_MAX_INT64_MONOID'', ''GxB_MAX_UINT8_MONOID'',
    ''GxB_MAX_UINT16_MONOID'', ''GxB_MAX_UINT32_MONOID'', ''GxB_MAX_UINT64_MONOID'',
    ''GxB_MAX_FP32_MONOID'', ''GxB_MAX_FP64_MONOID'', ''GxB_PLUS_INT8_MONOID'',
    ''GxB_PLUS_INT16_MONOID'', ''GxB_PLUS_INT32_MONOID'', ''GxB_PLUS_INT64_MONOID'',
    ''GxB_PLUS_UINT8_MONOID'', ''GxB_PLUS_UINT16_MONOID'', ''GxB_PLUS_UINT32_MONOID'',
    ''GxB_PLUS_UINT64_MONOID'', ''GxB_PLUS_FP32_MONOID'', ''GxB_PLUS_FP64_MONOID'',
    ''GxB_TIMES_INT8_MONOID'', ''GxB_TIMES_INT16_MONOID'', ''GxB_TIMES_INT32_MONOID'',
    ''GxB_TIMES_INT64_MONOID'', ''GxB_TIMES_UINT8_MONOID'', ''GxB_TIMES_UINT16_MONOID'',
    ''GxB_TIMES_UINT32_MONOID'', ''GxB_TIMES_UINT64_MONOID'', ''GxB_TIMES_FP32_MONOID'',
    ''GxB_TIMES_FP64_MONOID'', ''GxB_LOR_BOOL_MONOID'', ''GxB_LAND_BOOL_MONOID'',
    ''GxB_LXOR_BOOL_MONOID'', ''GxB_LXNOR_BOOL_MONOID'', ''GxB_PLUS_TIMES_INT8'',
    ''GxB_PLUS_TIMES_INT16'', ''GxB_PLUS_TIMES_INT32'', ''GxB_PLUS_TIMES_INT64'',
    ''GxB_PLUS_TIMES_UINT8'', ''GxB_PLUS_TIMES_UINT16'', ''GxB_PLUS_TIMES_UINT32'',
    ''GxB_PLUS_TIMES_UINT64'', ''GxB_PLUS_TIMES_FP32'', ''GxB_PLUS_TIMES_FP64'',
    ''GxB_PLUS_MIN_INT8'', ''GxB_PLUS_MIN_INT16'', ''GxB_PLUS_MIN_INT32'',
    ''GxB_PLUS_MIN_INT64'', ''GxB_PLUS_MIN_UINT8'', ''GxB_PLUS_MIN_UINT16'',
    ''GxB_PLUS_MIN_UINT32'', ''GxB_PLUS_MIN_UINT64'', ''GxB_PLUS_MIN_FP32'',
    ''GxB_PLUS_MIN_FP64'', ''GxB_MIN_PLUS_INT8'', ''GxB_MIN_PLUS_INT16'',
    ''GxB_MIN_PLUS_INT32'', ''GxB_MIN_PLUS_INT64'', ''GxB_MIN_PLUS_UINT8'',
    ''GxB_MIN_PLUS_UINT16'', ''GxB_MIN_PLUS_UINT32'', ''GxB_MIN_PLUS_UINT64'',
    ''GxB_MIN_PLUS_FP32'', ''GxB_MIN_PLUS_FP64'', ''GxB_MIN_TIMES_INT8'',
    ''GxB_MIN_TIMES_INT16'', ''GxB_MIN_TIMES_INT32'', ''GxB_MIN_TIMES_INT64'',
    ''GxB_MIN_TIMES_UINT8'', ''GxB_MIN_TIMES_UINT16'', ''GxB_MIN_TIMES_UINT32'',
    ''GxB_MIN_TIMES_UINT64'', ''GxB_MIN_TIMES_FP32'', ''GxB_MIN_TIMES_FP64'',
    ''GxB_MIN_FIRST_INT8'', ''GxB_MIN_FIRST_INT16'', ''GxB_MIN_FIRST_INT32'',
    ''GxB_MIN_FIRST_INT64'', ''GxB_MIN_FIRST_UINT8'', ''GxB_MIN_FIRST_UINT16'',
    ''GxB_MIN_FIRST_UINT32'', ''GxB_MIN_FIRST_UINT64'', ''GxB_MIN_FIRST_FP32'',
    ''GxB_MIN_FIRST_FP64'', ''GxB_MIN_SECOND_INT8'', ''GxB_MIN_SECOND_INT16'',
    ''GxB_MIN_SECOND_INT32'', ''GxB_MIN_SECOND_INT64'', ''GxB_MIN_SECOND_UINT8'',
    ''GxB_MIN_SECOND_UINT16'', ''GxB_MIN_SECOND_UINT32'', ''GxB_MIN_SECOND_UINT64'',
    ''GxB_MIN_SECOND_FP32'', ''GxB_MIN_SECOND_FP64'', ''GxB_MIN_MAX_INT8'',
    ''GxB_MIN_MAX_INT16'', ''GxB_MIN_MAX_INT32'', ''GxB_MIN_MAX_INT64'',
    ''GxB_MIN_MAX_UINT8'', ''GxB_MIN_MAX_UINT16'', ''GxB_MIN_MAX_UINT32'',
    ''GxB_MIN_MAX_UINT64'', ''GxB_MIN_MAX_FP32'', ''GxB_MIN_MAX_FP64'',
    ''GxB_MAX_PLUS_INT8'', ''GxB_MAX_PLUS_INT16'', ''GxB_MAX_PLUS_INT32'',
    ''GxB_MAX_PLUS_INT64'', ''GxB_MAX_PLUS_UINT8'', ''GxB_MAX_PLUS_UINT16'',
    ''GxB_MAX_PLUS_UINT32'', ''GxB_MAX_PLUS_UINT64'', ''GxB_MAX_PLUS_FP32'',
    ''GxB_MAX_PLUS_FP64'', ''GxB_MAX_TIMES_INT8'', ''GxB_MAX_TIMES_INT16'',
    ''GxB_MAX_TIMES_INT32'', ''GxB_MAX_TIMES_INT64'', ''GxB_MAX_TIMES_UINT8'',
    ''GxB_MAX_TIMES_UINT16'', ''GxB_MAX_TIMES_UINT32'', ''GxB_MAX_TIMES_UINT64'',
    ''GxB_MAX_TIMES_FP32'', ''GxB_MAX_TIMES_FP64'', ''GxB_MAX_FIRST_INT8'',
    ''GxB_MAX_FIRST_INT16'', ''GxB_MAX_FIRST_INT32'', ''GxB_MAX_FIRST_INT64'',
    ''GxB_MAX_FIRST_UINT8'', ''GxB_MAX_FIRST_UINT16'', ''GxB_MAX_FIRST_UINT32'',
    ''GxB_MAX_FIRST_UINT64'', ''GxB_MAX_FIRST_FP32'', ''GxB_MAX_FIRST_FP64'',
    ''GxB_MAX_SECOND_INT8'', ''GxB_MAX_SECOND_INT16'', ''GxB_MAX_SECOND_INT32'',
    ''GxB_MAX_SECOND_INT64'', ''GxB_MAX_SECOND_UINT8'', ''GxB_MAX_SECOND_UINT16'',
    ''GxB_MAX_SECOND_UINT32'', ''GxB_MAX_SECOND_UINT64'', ''GxB_MAX_SECOND_FP32'',
    ''GxB_MAX_SECOND_FP64'', ''GxB_MAX_MIN_INT8'', ''GxB_MAX_MIN_INT16'',
    ''GxB_MAX_MIN_INT32'', ''GxB_MAX_MIN_INT64'', ''GxB_MAX_MIN_UINT8'',
    ''GxB_MAX_MIN_UINT16'', ''GxB_MAX_MIN_UINT32'', ''GxB_MAX_MIN_UINT64'',
    ''GxB_MAX_MIN_FP32'', ''GxB_MAX_MIN_FP64'', ''GxB_LOR_LAND_BOOL'', ''GxB_LAND_LOR_BOOL'',
    ''GxB_LXOR_LAND_BOOL'', ''GrB_eWiseMult_Vector_Semiring'',
    ''GrB_eWiseMult_Vector_Monoid'', ''GrB_eWiseMult_Vector_BinaryOp'',
    ''GrB_eWiseMult_Matrix_Semiring'', ''GrB_eWiseMult_Matrix_Monoid'',
    ''GrB_eWiseMult_Matrix_BinaryOp'', ''GrB_eWiseAdd_Vector_Semiring'',
    ''GrB_eWiseAdd_Vector_Monoid'', ''GrB_eWiseAdd_Vector_BinaryOp'',
    ''GrB_eWiseAdd_Matrix_Semiring'', ''GrB_eWiseAdd_Matrix_Monoid'',
    ''GrB_eWiseAdd_Matrix_BinaryOp'']"

definition DEFINES :: "string list" where
  "DEFINES =
   [''GxB_STDC_VERSION'', ''GxB_IMPLEMENTATION_MAJOR'', ''GxB_IMPLEMENTATION_MINOR'',
    ''GxB_IMPLEMENTATION_SUB'', ''GxB_SPEC_MAJOR'', ''GxB_SPEC_MINOR'', ''GxB_SPEC_SUB'',
    ''GxB_IMPLEMENTATION'', ''GxB_SPEC_VERSION'', ''GxB_INDEX_MAX'', ''GRB_VERSION'',
    ''GRB_SUBVERSION'', ''GxB_NTHREADS'', ''GxB_CHUNK'', ''GxB_GPU_CONTROL'',
    ''GxB_GPU_CHUNK'', ''GxB_HYPERSPARSE'', ''GxB_SPARSE'', ''GxB_BITMAP'', ''GxB_FULL'',
    ''GxB_NBITMAP_SWITCH'', ''GxB_ANY_SPARSITY'', ''GxB_AUTO_SPARSITY'', ''GxB_RANGE'',
    ''GxB_STRIDE'', ''GxB_BACKWARDS'', ''GxB_BEGIN'', ''GxB_END'', ''GxB_INC'']"

definition CHAR_DEFINES :: "string list" where
  "CHAR_DEFINES =
   [''GxB_IMPLEMENTATION_NAME'', ''GxB_IMPLEMENTATION_DATE'', ''GxB_SPEC_DATE'',
    ''GxB_IMPLEMENTATION_ABOUT'', ''GxB_IMPLEMENTATION_LICENSE'', ''GxB_SPEC_ABOUT'']"

definition IGNORE_DEFINES :: "string list" where
  "IGNORE_DEFINES =
   [''CMPLX'', ''CMPLXF'', ''GB_PUBLIC'', ''GRAPHBLAS_H'', ''GrB_INVALID_HANDLE'',
    ''GrB_NULL'', ''GxB_SUITESPARSE_GRAPHBLAS'', ''NMACRO'', ''GxB_HYPER'']"

section \<open>Sets, dictionaries, errors\<close>

text \<open>
  A \<open>set\<close> is held as a list without duplicates and read through \<open>set\<close>. The order
  in which Python iterates over a set of strings depends on the hash seed of the
  process, so every iteration takes the order as a parameter \<open>iter\<close>: the list that the
  iteration over the set yields. \<open>set_order iter\<close> says that \<open>iter\<close> only reorders.
\<close>

type_synonym pyset = "string list"

definition set_order :: "(string list \<Rightarrow> string list) \<Rightarrow> bool" where
  "set_order iter = (\<forall>xs. mset (iter xs) = mset xs)"

text \<open>\<open>{x for x in xs if P x}\<close>\<close>

definition set_comp :: "(string \<Rightarrow> bool) \<Rightarrow> string list \<Rightarrow> pyset" where
  "set_comp P xs = remdups (filter P xs)"

text \<open>\<open>a - b\<close>\<close>

definition set_minus :: "pyset \<Rightarrow> string list \<Rightarrow> pyset" where
  "set_minus a b = filter (\<lambda>x. x \<notin> set b) a"

text \<open>\<open>seen.update(xs)\<close>\<close>

definition set_update :: "pyset \<Rightarrow> string list \<Rightarrow> pyset" where
  "set_update seen xs = seen @ set_minus (remdups xs) seen"

text \<open>\<open>sorted(vals, key=key)\<close> over a set: a stable sort of the iteration order.\<close>

definition sorted_set ::
  "(string list \<Rightarrow> string list) \<Rightarrow> (string \<Rightarrow> string) \<Rightarrow> pyset \<Rightarrow> string list" where
  "sorted_set iter key vals = sort_key key (iter vals)"

datatype error =
    AssertionError string
  | ValueError string
  | KeyError string
  | IndexError
  | TypeError
  | AttributeError
  | FileNotFoundError string
  | RuntimeError string
  | LibraryError string

text \<open>A \<open>dict\<close> is an association list in insertion order; \<open>d[k]\<close> raises \<open>KeyError\<close>.\<close>

definition getitem :: "(string \<times> 'v) list \<Rightarrow> string \<Rightarrow> error + 'v" where
  "getitem d k = (case map_of d k of None \<Rightarrow> Inl (KeyError k) | Some v \<Rightarrow> Inr v)"

section \<open>The parsed header\<close>

text \<open>
  The syntax tree comes from \<open>pycparser\<close>, which is not part of the script. The script
  reads it through three traversals only, and the tree is modelled by what they return:
  the C text that \<open>CGenerator().visit(ast)\<close> generates, the text that
  \<open>visit_Typedef\<close> generates for each typedef of an enum, and the \<open>Decl\<close> nodes
  that \<open>FuncDeclVisitor\<close> collects (function declarations with storage \<open>extern\<close>),
  each with its name, the generated text of its return type and its own generated text.
\<close>

record func_node =
  node_name :: string
  node_return_type :: string
  node_text :: string

record ast =
  generated_text :: string
  enum_typedefs :: "string list"
  extern_functions :: "func_node list"

text \<open>\<open>VisitEnumTypedef\<close>: \<open>self.results.append(rv + ";")\<close> for each typedef of an enum.\<close>

definition VisitEnumTypedef_results :: "ast \<Rightarrow> string list" where
  "VisitEnumTypedef_results a = map (\<lambda>rv. rv @ '';'') (enum_typedefs a)"

section \<open>\<open>get_groups\<close>\<close>

type_synonym groups = "(string \<times> string list) list"

text \<open>
  The state of \<open>get_groups\<close> is the set \<open>seen\<close> and the dictionary \<open>groups\<close>.
  The function repeats one block for each group of lines:
  \<^verbatim>\<open>
    vals = {x for x in lines if P(x)} - seen
    seen.update(vals)
    groups[name] = sorted(vals, key=sort_key)
  \<close>
\<close>

definition bucket ::
  "(string list \<Rightarrow> string list) \<Rightarrow> string list \<Rightarrow> string \<Rightarrow> (string \<Rightarrow> bool)
     \<Rightarrow> pyset \<times> groups \<Rightarrow> pyset \<times> groups" where
  "bucket iter lines name P st =
     (case st of (seen, groups) \<Rightarrow>
        let vals = set_minus (set_comp P lines) seen;
            seen = set_update seen vals;
            groups = AList.update name (sorted_set iter sort_key_str vals) groups
        in (seen, groups))"

text \<open>
  and one block for each group of enums:
  \<^verbatim>\<open>
    vals = {x for x in enums if marker in x}
    for val in vals:
        seen.update(val.splitlines())
    groups[name] = sorted(vals, key=lambda x: sort_key(x.rsplit("}", 1)[-1]))
  \<close>
\<close>

definition enum_key :: "string \<Rightarrow> string" where
  "enum_key x = sort_key_str (rsplit_last CHR ''}'' x)"

definition enum_bucket ::
  "(string list \<Rightarrow> string list) \<Rightarrow> string list \<Rightarrow> string \<Rightarrow> string
     \<Rightarrow> pyset \<times> groups \<Rightarrow> pyset \<times> groups" where
  "enum_bucket iter enums name marker st =
     (case st of (seen, groups) \<Rightarrow>
        let vals = set_comp (str_in marker) enums;
            seen = fold (\<lambda>val seen. set_update seen (splitlines val)) (iter vals) seen;
            groups = AList.update name (sorted_set iter enum_key vals) groups
        in (seen, groups))"

definition get_groups :: "(string list \<Rightarrow> string list) \<Rightarrow> ast \<Rightarrow> error + groups" where
  "get_groups iter a =
    (let lines = splitlines (generated_text a);
         st = ([], []);
         st = bucket iter lines ''GxB methods'' (str_in ''extern GrB_Info GxB'') st;
         st = bucket iter lines ''GrB methods'' (str_in ''extern GrB_Info GrB'') st;
         st = bucket iter lines ''GB methods'' (str_in ''extern GrB_Info GB'') st;
         missing_methods = set_minus (set_comp (str_in ''extern GrB_Info '') lines) (fst st)
     in if missing_methods \<noteq> [] then Inl (AssertionError [])
     else
     let st = bucket iter lines ''GrB objects'' (str_in ''extern GrB'') st;
         st = bucket iter lines ''GxB objects'' (str_in ''extern GxB'') st;
         st = bucket iter lines ''GxB const''
                (\<lambda>x. str_in ''extern const'' x \<and> str_in ''GxB'' x) st;
         st = bucket iter lines ''GrB const''
                (\<lambda>x. str_in ''extern const'' x \<and> str_in ''GrB'' x) st;
         missing_const = set_minus (set_comp (str_in ''extern const'') lines) (fst st)
     in if missing_const \<noteq> [] then Inl (AssertionError [])
     else
     let st = bucket iter lines ''GxB typedef''
                (\<lambda>x. str_in ''typedef'' x \<and> str_in ''GxB'' x \<and> \<not> str_in ''('' x) st;
         st = bucket iter lines ''GrB typedef''
                (\<lambda>x. str_in ''typedef'' x \<and> str_in ''GrB'' x \<and> \<not> str_in ''('' x) st;
         missing_typedefs =
           set_minus
             (set_comp (\<lambda>x. str_in ''typedef'' x \<and> str_in ''GB'' x \<and> \<not> str_in ''('' x) lines)
             (fst st)
     in if missing_typedefs \<noteq> [] then Inl (AssertionError [])
     else if \<not> list_all (\<lambda>x. endswith x '';'') (fst st) then Inl (AssertionError [])
     else
     let enums = VisitEnumTypedef_results a;
         st = enum_bucket iter enums ''GrB typedef enums'' ''} GrB'' st;
         st = enum_bucket iter enums ''GxB typedef enums'' ''} GxB'' st
     in (case getitem (snd st) ''GrB typedef enums'' of Inl e \<Rightarrow> Inl e | Inr grb_enums \<Rightarrow>
        (case getitem (snd st) ''GxB typedef enums'' of Inl e \<Rightarrow> Inl e | Inr gxb_enums \<Rightarrow>
     let missing_enums = set_minus (set_minus (remdups enums) grb_enums) gxb_enums
     in if missing_enums \<noteq> [] then Inl (AssertionError [])
     else
     let st = bucket iter lines ''GxB typedef funcs''
                (\<lambda>x. str_in ''typedef'' x \<and> str_in ''GxB'' x) st;
         vals = set_minus (set_comp (\<lambda>x. str_in ''typedef'' x \<and> str_in ''GrB'' x) lines) (fst st)
     in if vals \<noteq> [] then Inl (AssertionError [])
     else
     let groups =
           AList.update ''not seen''
             (sorted_set iter sort_key_str (set_minus (remdups lines) (fst st))) (snd st)
     in (case getitem groups ''not seen'' of Inl e \<Rightarrow> Inl e | Inr not_seen \<Rightarrow>
        (case filter (str_in ''extern'') not_seen of
           [] \<Rightarrow> Inr groups
         | grp # _ \<Rightarrow> Inl (AssertionError grp))))))"

section \<open>\<open>get_group_info\<close>\<close>

text \<open>Sequencing of computations that may raise.\<close>

definition bind_err :: "error + 'a \<Rightarrow> ('a \<Rightarrow> error + 'b) \<Rightarrow> error + 'b" where
  "bind_err m f = (case m of Inl e \<Rightarrow> Inl e | Inr x \<Rightarrow> f x)"

text \<open>
  \<open>list(handler(group))\<close> for a generator \<open>handler\<close> whose body, for each element,
  raises, skips the element (\<open>continue\<close>) or yields one value.
\<close>

fun collect :: "('a \<Rightarrow> error + 'b option) \<Rightarrow> 'a list \<Rightarrow> error + 'b list" where
  "collect f [] = Inr []"
| "collect f (x # xs) =
     (case f x of
        Inl e \<Rightarrow> Inl e
      | Inr r \<Rightarrow>
          (case collect f xs of
             Inl e \<Rightarrow> Inl e
           | Inr rs \<Rightarrow> Inr (case r of None \<Rightarrow> rs | Some y \<Rightarrow> y # rs)))"

text \<open>
  The dictionaries that the handlers yield. Every one has the key \<open>text\<close>; the enums
  also have \<open>orig_text\<close>; the functions also have \<open>name\<close>, \<open>group\<close> and \<open>node\<close>
  (the node is never read again and is left out). A group of the result holds such
  dictionaries, except \<open>not seen\<close>, which holds the lines themselves.
\<close>

record info =
  info_text :: string
  info_orig_text :: "string option"
  info_name :: "string option"
  info_group :: "string option"

datatype entry = Str string | Dict info

type_synonym group_info = "(string \<times> entry list) list"

definition text_info :: "string \<Rightarrow> info" where
  "text_info line = \<lparr>info_text = line, info_orig_text = None, info_name = None, info_group = None\<rparr>"

definition handle_constant :: "bool \<Rightarrow> string \<Rightarrow> error + info option" where
  "handle_constant skip_complex line =
     (case str_split CHR '' '' line of
        [extern, const, ctype, name] \<Rightarrow>
          if \<not> endswith name '';'' then Inl (AssertionError [])
          else
            let name = str_replace ''(void)'' ''()'' (butlast name) in
            if extern \<noteq> ''extern'' then Inl (AssertionError [])
            else if const \<noteq> ''const'' then Inl (AssertionError [])
            else if name \<in> set DEPRECATED then Inr None
            else if skip_complex \<and> has_complex line then Inr None
            else Inr (Some (text_info line))
      | _ \<Rightarrow> Inl (ValueError []))"

definition handle_constants :: "bool \<Rightarrow> string list \<Rightarrow> error + info list" where
  "handle_constants skip_complex grp = collect (handle_constant skip_complex) grp"

definition handle_object :: "bool \<Rightarrow> string \<Rightarrow> error + info option" where
  "handle_object skip_complex line =
     (case str_split CHR '' '' line of
        [extern, ctype, name] \<Rightarrow>
          if \<not> endswith name '';'' then Inl (AssertionError [])
          else
            let name = butlast name in
            if extern \<noteq> ''extern'' then Inl (AssertionError [])
            else if name \<in> set DEPRECATED then Inr None
            else if skip_complex \<and> has_complex line then Inr None
            else Inr (Some (text_info line))
      | _ \<Rightarrow> Inl (ValueError []))"

definition handle_objects :: "bool \<Rightarrow> string list \<Rightarrow> error + info list" where
  "handle_objects skip_complex grp = collect (handle_object skip_complex) grp"

text \<open>The body of the loop over the fields of an enum.\<close>

definition handle_field :: "bool \<Rightarrow> string \<Rightarrow> error + string option" where
  "handle_field skip_complex field =
     (let field = (if endswith field '','' then butlast field else field);
          field = strip field
      in case str_split CHR '' '' field of
           [cfieldname, eq, val] \<Rightarrow>
             if eq \<noteq> ''='' then Inl (AssertionError [])
             else if cfieldname \<in> set DEPRECATED then Inr None
             else if skip_complex \<and> has_complex cfieldname then Inr None
             else Inr (Some field)
         | _ \<Rightarrow> Inl (ValueError []))"

text \<open>\<open>typedef, bracket, *fields, name = text.splitlines()\<close>\<close>

definition unpack_enum :: "string list \<Rightarrow> error + (string \<times> string \<times> string list \<times> string)" where
  "unpack_enum ls =
     (case ls of
        typedef # bracket # rest \<Rightarrow>
          if rest = [] then Inl (ValueError [])
          else Inr (typedef, bracket, butlast rest, last rest)
      | _ \<Rightarrow> Inl (ValueError []))"

text \<open>\<open>lines[-1] = lines[-1][:-1]\<close> on a list that is not empty.\<close>

definition drop_last_char_of_last :: "string list \<Rightarrow> string list" where
  "drop_last_char_of_last ls = ls[length ls - 1 := butlast (last ls)]"

definition handle_enum :: "bool \<Rightarrow> string \<Rightarrow> error + info option" where
  "handle_enum skip_complex text0 =
     (let text = str_replace ''enum \<newline>'' ''enum\<newline>'' text0 in
      bind_err (unpack_enum (splitlines text)) (\<lambda>(typedef, bracket, fields, name).
        if strip typedef \<noteq> ''typedef enum'' then Inl (AssertionError [])
        else if bracket \<noteq> ''{'' then Inl (AssertionError [])
        else if \<not> startswith name ''}'' then Inl (AssertionError [])
        else if \<not> endswith name '';'' then Inl (AssertionError [])
        else
          let name = strip (butlast (tl name)) in
          if name \<in> set DEPRECATED then Inr None
          else if skip_complex \<and> has_complex name then Inr None
          else
            bind_err (unpack_enum (splitlines text)) (\<lambda>(typedef, bracket, fields, cname).
              let typedef = strip typedef in
              if strip typedef \<noteq> ''typedef enum'' then Inl (AssertionError [])
              else if bracket \<noteq> ''{'' then Inl (AssertionError [])
              else if \<not> startswith cname ''}'' then Inl (AssertionError [])
              else if \<not> endswith cname '';'' then Inl (AssertionError [])
              else
                bind_err (collect (handle_field skip_complex) fields) (\<lambda>new_fields.
                  if new_fields = [] then Inr None
                  else
                    let lines = [typedef, bracket];
                        lines = lines @ map (\<lambda>field. ''  '' @ field @ '','') new_fields;
                        lines = drop_last_char_of_last lines;
                        lines = lines @ [cname]
                    in Inr (Some \<lparr>info_text = join ''\<newline>'' lines,
                                    info_orig_text = Some text,
                                    info_name = None, info_group = None\<rparr>)))))"

definition handle_enums :: "bool \<Rightarrow> string list \<Rightarrow> error + info list" where
  "handle_enums skip_complex grp = collect (handle_enum skip_complex) grp"

definition handle_typedef :: "bool \<Rightarrow> string \<Rightarrow> error + info option" where
  "handle_typedef skip_complex line =
     (case str_split CHR '' '' line of
        typedef # rest \<Rightarrow>
          if rest = [] then Inl (ValueError [])
          else
            let name = last rest in
            if typedef \<noteq> ''typedef'' then Inl (AssertionError [])
            else if \<not> endswith name '';'' then Inl (AssertionError [])
            else
              let name = butlast name in
              if name \<in> set DEPRECATED then Inr None
              else if skip_complex \<and> has_complex line then Inr None
              else Inr (Some (text_info line))
      | _ \<Rightarrow> Inl (ValueError []))"

definition handle_typedefs :: "bool \<Rightarrow> string list \<Rightarrow> error + info list" where
  "handle_typedefs skip_complex grp = collect (handle_typedef skip_complex) grp"

definition handle_typedef_func :: "bool \<Rightarrow> string \<Rightarrow> error + info option" where
  "handle_typedef_func skip_complex line =
     (if \<not> (endswith line '';'' \<and> startswith line ''typedef'') then Inl (AssertionError [])
      else if skip_complex \<and> has_complex line then Inr None
      else Inr (Some (text_info line)))"

definition handle_typedef_funcs :: "bool \<Rightarrow> string list \<Rightarrow> error + info list" where
  "handle_typedef_funcs skip_complex grp = collect (handle_typedef_func skip_complex) grp"

text \<open>The naming scheme of \<open>handle_function_node\<close>.\<close>

definition group_table :: "(string \<times> string) list" where
  "group_table =
     [(''GrB_Matrix'', ''matrix''), (''GrB_Vector'', ''vector''), (''GxB_Scalar'', ''scalar''),
      (''SelectOp'', ''selectop''), (''BinaryOp'', ''binary''), (''Desc'', ''descriptor''),
      (''Descriptor'', ''descriptor''), (''Monoid'', ''monoid''), (''Semiring'', ''semiring''),
      (''Type'', ''type''), (''UnaryOp'', ''unary''), (''getVersion'', ''core''),
      (''Global'', ''core''), (''cuda'', ''core''), (''finalize'', ''core''),
      (''init'', ''core''), (''wait'', ''core'')]"

definition handle_function_node :: "bool \<Rightarrow> func_node \<Rightarrow> error + info option" where
  "handle_function_node skip_complex node =
     (if node_return_type node \<noteq> ''GrB_Info'' then Inl (ValueError (node_text node))
      else if node_name node \<in> set DEPRECATED then Inr None
      else
        let text = node_text node @ '';'' in
        if skip_complex \<and> has_complex text then Inr None
        else
          bind_err
            (if str_in ''GrB_Matrix'' text then Inr ''matrix''
             else if str_in ''GrB_Vector'' text then Inr ''vector''
             else if str_in ''GxB_Scalar'' text then Inr ''scalar''
             else
               (case str_split_max CHR ''_'' 2 (node_name node) of
                  _ # grp # _ \<Rightarrow> getitem group_table grp
                | _ \<Rightarrow> Inl IndexError))
            (\<lambda>grp. Inr (Some \<lparr>info_text = text, info_orig_text = None,
                                info_name = Some (node_name node),
                                info_group = Some grp\<rparr>)))"

text \<open>\<open>rv[key] = list(handler(groups[key]))\<close>\<close>

definition handle_group ::
  "(string list \<Rightarrow> error + info list) \<Rightarrow> groups \<Rightarrow> string \<Rightarrow> group_info \<Rightarrow> error + group_info" where
  "handle_group handler groups key rv =
     bind_err (getitem groups key) (\<lambda>grp.
     bind_err (handler grp) (\<lambda>infos.
     Inr (AList.update key (map Dict infos) rv)))"

text \<open>\<open>assert len(nodes) == len(groups[key])\<close>\<close>

definition check_count :: "func_node list \<Rightarrow> groups \<Rightarrow> string \<Rightarrow> error + unit" where
  "check_count nodes groups key =
     bind_err (getitem groups key) (\<lambda>grp.
     if length nodes = length grp then Inr () else Inl (AssertionError []))"

text \<open>\<open>sorted(funcs, key=lambda x: sort_key(x["text"]))\<close>\<close>

definition sorted_funcs :: "info list \<Rightarrow> entry list" where
  "sorted_funcs funcs = map Dict (sort_key (\<lambda>x. sort_key_str (info_text x)) funcs)"

definition get_group_info ::
  "(string list \<Rightarrow> string list) \<Rightarrow> bool \<Rightarrow> groups \<Rightarrow> ast \<Rightarrow> error + group_info" where
  "get_group_info iter skip_complex groups a =
     bind_err (handle_group (handle_constants skip_complex) groups ''GrB const'' []) (\<lambda>rv.
     bind_err (handle_group (handle_constants skip_complex) groups ''GxB const'' rv) (\<lambda>rv.
     bind_err (handle_group (handle_objects skip_complex) groups ''GrB objects'' rv) (\<lambda>rv.
     bind_err (handle_group (handle_objects skip_complex) groups ''GxB objects'' rv) (\<lambda>rv.
     bind_err (handle_group (handle_enums skip_complex) groups ''GrB typedef enums'' rv) (\<lambda>rv.
     bind_err (handle_group (handle_enums skip_complex) groups ''GxB typedef enums'' rv) (\<lambda>rv.
     bind_err (handle_group (handle_typedefs skip_complex) groups ''GrB typedef'' rv) (\<lambda>rv.
     bind_err (handle_group (handle_typedefs skip_complex) groups ''GxB typedef'' rv) (\<lambda>rv.
     bind_err (handle_group (handle_typedef_funcs skip_complex) groups ''GxB typedef funcs'' rv)
       (\<lambda>rv.
     let grb_nodes = filter (\<lambda>node. startswith (node_name node) ''GrB_'') (extern_functions a);
         gxb_nodes = filter (\<lambda>node. startswith (node_name node) ''GxB_'') (extern_functions a);
         gb_nodes = filter (\<lambda>node. startswith (node_name node) ''GB_'') (extern_functions a)
     in
     bind_err (check_count grb_nodes groups ''GrB methods'') (\<lambda>_.
     bind_err (check_count gxb_nodes groups ''GxB methods'') (\<lambda>_.
     bind_err (check_count gb_nodes groups ''GB methods'') (\<lambda>_.
     bind_err (collect (handle_function_node skip_complex) grb_nodes) (\<lambda>grb_funcs.
     bind_err (collect (handle_function_node skip_complex) gxb_nodes) (\<lambda>gxb_funcs.
     bind_err (collect (handle_function_node skip_complex) gb_nodes) (\<lambda>gb_funcs.
     let rv = AList.update ''GrB methods'' (sorted_funcs grb_funcs) rv;
         rv = AList.update ''GxB methods'' (sorted_funcs gxb_funcs) rv;
         rv = AList.update ''GB methods'' (sorted_funcs gb_funcs) rv;
         keys = iter (set_minus (remdups (map fst groups)) (map fst rv));
         rv = fold (\<lambda>key rv.
                 case map_of groups key of
                   Some lines \<Rightarrow> AList.update key (map Str lines) rv
                 | None \<Rightarrow> rv) keys rv
     in Inr rv)))))))))))))))"

text \<open>
  \<open>parse_header\<close>. \<open>get_ast\<close> is a call of \<open>pycparser\<close>: it raises or returns the tree
  of the file, and that outcome is the argument here.
\<close>

definition parse_header ::
  "(string list \<Rightarrow> string list) \<Rightarrow> bool \<Rightarrow> error + ast \<Rightarrow> error + group_info" where
  "parse_header iter skip_complex parsed =
     bind_err parsed (\<lambda>a.
     bind_err (get_groups iter a) (\<lambda>groups.
     get_group_info iter skip_complex groups a))"

section \<open>\<open>create_header_text\<close> and \<open>create_source_text\<close>\<close>

text \<open>\<open>[f(x) for x in xs]\<close> where \<open>f\<close> may raise.\<close>

fun map_err :: "('a \<Rightarrow> error + 'b) \<Rightarrow> 'a list \<Rightarrow> error + 'b list" where
  "map_err f [] = Inr []"
| "map_err f (x # xs) =
     (case f x of
        Inl e \<Rightarrow> Inl e
      | Inr y \<Rightarrow> (case map_err f xs of Inl e \<Rightarrow> Inl e | Inr ys \<Rightarrow> Inr (y # ys)))"

text \<open>\<open>group["text"]\<close> and \<open>item["group"]\<close>; indexing a \<open>str\<close> by a key raises \<open>TypeError\<close>.\<close>

definition entry_text :: "entry \<Rightarrow> error + string" where
  "entry_text e = (case e of Dict i \<Rightarrow> Inr (info_text i) | Str s \<Rightarrow> Inl TypeError)"

definition entry_group :: "entry \<Rightarrow> error + string" where
  "entry_group e =
     (case e of
        Dict i \<Rightarrow> (case info_group i of Some g \<Rightarrow> Inr g | None \<Rightarrow> Inl (KeyError ''group''))
      | Str s \<Rightarrow> Inl TypeError)"

text \<open>The texts of \<open>groups[key]\<close>, in order.\<close>

definition group_texts :: "group_info \<Rightarrow> string \<Rightarrow> error + string list" where
  "group_texts groups key = bind_err (getitem groups key) (map_err entry_text)"

text \<open>\<open>groupby(index, seq)\<close>, the first argument given as the function that indexes.\<close>

fun groupby_loop ::
  "(entry \<Rightarrow> error + string) \<Rightarrow> entry list \<Rightarrow> (string \<times> entry list) list
     \<Rightarrow> error + (string \<times> entry list) list" where
  "groupby_loop index [] rv = Inr rv"
| "groupby_loop index (item # seq) rv =
     bind_err (index item) (\<lambda>key.
       groupby_loop index seq
         (case map_of rv key of
            Some items \<Rightarrow> AList.update key (items @ [item]) rv
          | None \<Rightarrow> AList.update key [item] rv))"

definition groupby ::
  "(entry \<Rightarrow> error + string) \<Rightarrow> entry list \<Rightarrow> error + (string \<times> entry list) list" where
  "groupby index seq = groupby_loop index seq []"

text \<open>The inner generator \<open>handle_funcs\<close> of \<open>create_header_text\<close>, as the list it yields.\<close>

definition handle_funcs :: "entry list \<Rightarrow> error + string list" where
  "handle_funcs grp =
     bind_err (groupby entry_group grp) (\<lambda>groups.
     bind_err
       (map_err
          (\<lambda>name.
             bind_err (getitem groups name) (\<lambda>infos.
             bind_err (map_err entry_text infos) (\<lambda>ts.
             Inr ([[], ''/* '' @ name @ '' */''] @ ts))))
          (sort_key sort_key_str (map fst groups)))
       (\<lambda>chunks. Inr (concat chunks)))"

definition create_header_text ::
  "(string list \<Rightarrow> string list) \<Rightarrow> group_info \<Rightarrow> string list option \<Rightarrow> string list option
     \<Rightarrow> error + string list" where
  "create_header_text iter groups char_defines defines =
    (let char_defines = (case char_defines of None \<Rightarrow> CHAR_DEFINES | Some c \<Rightarrow> c);
         defines = (case defines of None \<Rightarrow> DEFINES | Some d \<Rightarrow> d);
         text = [AUTO];
         text = text @ [''/* GrB typedefs */'']
     in
     bind_err (group_texts groups ''GrB typedef'') (\<lambda>ts.
     let text = text @ ts @ [[], ''/* GxB typedefs */''] in
     bind_err (group_texts groups ''GxB typedef'') (\<lambda>ts.
     let text = text @ ts @ [[], ''/* GxB typedefs (functions) */''] in
     bind_err (group_texts groups ''GxB typedef funcs'') (\<lambda>ts.
     let text = text @ ts @ [[], ''/* GrB enums */''] in
     bind_err (group_texts groups ''GrB typedef enums'') (\<lambda>ts.
     let text = text @ concat (map (\<lambda>t. [t, []]) ts) @ [''/* GxB enums */''] in
     bind_err (group_texts groups ''GxB typedef enums'') (\<lambda>ts.
     let text = text @ concat (map (\<lambda>t. [t, []]) ts) @ [''/* GrB consts */''] in
     bind_err (group_texts groups ''GrB const'') (\<lambda>ts.
     let text = text @ ts @ [[], ''/* GxB consts */''] in
     bind_err (group_texts groups ''GxB const'') (\<lambda>ts.
     let text = text @ ts @ [[], ''/* GrB objects */''] in
     bind_err (group_texts groups ''GrB objects'') (\<lambda>ts.
     let text = text @ filter (\<lambda>t. \<not> str_in ''GxB'' t) ts
                  @ [[], ''/* GrB objects (extended) */''] in
     bind_err (group_texts groups ''GrB objects'') (\<lambda>ts.
     let text = text @ filter (\<lambda>t. str_in ''GxB'' t) ts @ [[], ''/* GxB objects */''] in
     bind_err (group_texts groups ''GxB objects'') (\<lambda>ts.
     let text = text @ ts;
         text = text @ [[], ''/****************'', ''* GrB functions *'', ''****************/'']
     in
     bind_err (bind_err (getitem groups ''GrB methods'') handle_funcs) (\<lambda>ts.
     let text = text @ ts;
         text = text @ [[], ''/***************'', ''* GB functions *'', ''***************/'']
     in
     bind_err (bind_err (getitem groups ''GB methods'') handle_funcs) (\<lambda>ts.
     let text = text @ ts;
         text = text @ [[], ''/****************'', ''* GxB functions *'', ''****************/'']
     in
     bind_err (bind_err (getitem groups ''GxB methods'') handle_funcs) (\<lambda>ts.
     let text = text @ ts;
         text = text @ [[], ''/* int DEFINES */''];
         text = text @ map (\<lambda>item. ''#define '' @ item @ '' ...'')
                         (sorted_set iter sort_key_str defines);
         text = text @ [[], ''/* char* DEFINES */''];
         text = text @ map (\<lambda>item. ''extern char *'' @ item @ ''_STR;'')
                         (sorted_set iter sort_key_str char_defines)
     in Inr text))))))))))))))"

definition create_source_text ::
  "(string list \<Rightarrow> string list) \<Rightarrow> string list option \<Rightarrow> string list" where
  "create_source_text iter char_defines =
    (let char_defines = (case char_defines of None \<Rightarrow> CHAR_DEFINES | Some c \<Rightarrow> c);
         text = [AUTO, ''#include '' @ [CHR 0x22] @ ''GraphBLAS.h'' @ [CHR 0x22]];
         text = text @ map (\<lambda>item. ''char *'' @ item @ ''_STR = '' @ item @ '';'')
                         (sorted_set iter sort_key_str char_defines)
     in text)"

section \<open>\<open>main\<close>\<close>

text \<open>
  What \<open>main\<close> reads from outside the script is its environment: the two command-line
  arguments, the directory of the script and that of \<open>pycparser\<close>, whether the input
  header exists, the return code of the preprocessor command, the outcome of
  \<open>get_ast\<close> on the processed header, and the matches of the pattern
  \<open>#define\s+\w+\s+\<close> in the copied header (\<open>define_pattern.findall(text)\<close>).
  What it does to the outside is a trace of events, in order.
\<close>

record env =
  arg_graphblas :: string
  arg_show_skipped :: bool
  thisdir :: string
  pycparser_dir :: string
  graphblas_exists :: bool
  returncode :: int
  processed :: "error + ast"
  define_matches :: "string list"

datatype event =
    Print string
  | CopyFile string string
  | Shell string
  | WriteFile string string

text \<open>\<open>os.path.join(a, b)\<close> on a POSIX system.\<close>

definition path_join :: "string \<Rightarrow> string \<Rightarrow> string" where
  "path_join a b =
     (if startswith b ''/'' then b
      else if a = [] \<or> endswith a ''/'' then a @ b
      else a @ ''/'' @ b)"

text \<open>\<open>a | b\<close>\<close>

definition set_union :: "pyset \<Rightarrow> pyset \<Rightarrow> pyset" where
  "set_union a b = a @ set_minus b a"

text \<open>The character ROCKET (U+1F680), as the bytes that \<open>print\<close> writes in UTF-8.\<close>

definition ROCKET :: string where
  "ROCKET = [CHR 0xF0, CHR 0x9F, CHR 0x9A, CHR 0x80]"

text \<open>The strings of a list of lines; \<open>sort_key\<close> of a \<open>dict\<close> raises \<open>AttributeError\<close>.\<close>

definition entry_str :: "entry \<Rightarrow> error + string" where
  "entry_str e = (case e of Str s \<Rightarrow> Inr s | Dict i \<Rightarrow> Inl AttributeError)"

text \<open>The names found in the copied header, and the two sets that step 6 computes.\<close>

definition found_defines :: "env \<Rightarrow> pyset" where
  "found_defines env =
     set_comp (\<lambda>x. True) (map (\<lambda>x. strip (drop (length ''#define'') x)) (define_matches env))"

definition extra_defines :: "env \<Rightarrow> pyset" where
  "extra_defines env = set_minus (set_union DEFINES CHAR_DEFINES) (found_defines env)"

definition unknown_defines :: "env \<Rightarrow> pyset" where
  "unknown_defines env =
     set_minus (set_minus (set_minus (found_defines env) DEFINES) CHAR_DEFINES) IGNORE_DEFINES"

definition main :: "(string list \<Rightarrow> string list) \<Rightarrow> env \<Rightarrow> event list \<times> (error + unit)" where
  "main iter env =
    (let graphblas_h = path_join (thisdir env) ''GraphBLAS-orig.h'';
         processed_h = path_join (thisdir env) ''GraphBLAS-processed.h'';
         final_h = path_join (thisdir env) ''suitesparse_graphblas.h'';
         final_no_complex_h = path_join (thisdir env) ''suitesparse_graphblas_no_complex.h'';
         source_c = path_join (thisdir env) ''source.c'';
         out = [Print (''Step 1: copy '' @ arg_graphblas env @ '' to '' @ graphblas_h)]
     in
     if \<not> graphblas_exists env
     then (out, Inl (FileNotFoundError (''File not found: '' @ arg_graphblas env)))
     else
     let out = out @ [CopyFile (arg_graphblas env) graphblas_h];
         out = out @ [Print (''Step 2: run preprocessor to create '' @ processed_h)];
         include = path_join (path_join (pycparser_dir env) ''utils'') ''fake_libc_include'';
         command = ''gcc -nostdinc -E -I'' @ include @ '' '' @ graphblas_h @ '' ''
                   @ ''| sed '' @ [CHR 0x27] @ ''s/ complex / _Complex /g'' @ [CHR 0x27]
                   @ '' > '' @ processed_h;
         out = out @ [Shell command]
     in
     if returncode env \<noteq> 0 then (out, Inl (RuntimeError ''Subprocess command failed''))
     else
     let out = out @ [Print (''Step 3: parse header file to create '' @ final_h)] in
     (case parse_header iter False (processed env) of Inl e \<Rightarrow> (out, Inl e) | Inr groups \<Rightarrow>
     (case create_header_text iter groups None None of Inl e \<Rightarrow> (out, Inl e) | Inr text \<Rightarrow>
     let out = out @ [WriteFile final_h (join ''\<newline>'' text)];
         out = out @ [Print (''Step 4: parse header file to create '' @ final_no_complex_h)]
     in
     (case parse_header iter True (processed env) of
        Inl e \<Rightarrow> (out, Inl e) | Inr groups_no_complex \<Rightarrow>
     (case create_header_text iter groups_no_complex None None of
        Inl e \<Rightarrow> (out, Inl e) | Inr text \<Rightarrow>
     let out = out @ [WriteFile final_no_complex_h (join ''\<newline>'' text)];
         out = out @ [Print (''Step 5: create '' @ source_c)];
         text = create_source_text iter None;
         out = out @ [WriteFile source_c (join ''\<newline>'' text)];
         out = out @ [Print ''Step 6: check #define definitions''];
         defines = found_defines env;
         extra_defines = set_minus (set_union DEFINES CHAR_DEFINES) defines;
         out = (if extra_defines \<noteq> []
                then out @ [Print (''WARNING: the following #define values weren't found in ''
                                  @ graphblas_h @ '': '' @ join '', '' (sort (iter extra_defines)))]
                else out);
         unknown_defines =
           set_minus (set_minus (set_minus defines DEFINES) CHAR_DEFINES) IGNORE_DEFINES
     in
     if unknown_defines \<noteq> []
     then (out, Inl (ValueError (''Unknown #define values found in '' @ graphblas_h @ '': ''
                                 @ join '', '' (sort (iter unknown_defines)))))
     else
     let out = out @ [Print (''Success! '' @ ROCKET)] in
     if arg_show_skipped env then
       (let out = out @ [Print []];
            out = out @ [Print (''Showing lines from '' @ processed_h
                                @ '' that were skipped when creating '' @ final_h @ '':'')];
            out = out @ [Print (replicate 80 CHR ''-'')]
        in case bind_err (getitem groups ''not seen'') (map_err entry_str) of
             Inl e \<Rightarrow> (out, Inl e)
           | Inr not_seen \<Rightarrow> (out @ map Print (sort_key sort_key_str not_seen), Inr ()))
     else (out, Inr ()))))))"

text \<open>The files that a trace writes, and whether steps 1 to 5 of a run complete.\<close>

definition written_files :: "event list \<Rightarrow> string list" where
  "written_files out = concat (map (\<lambda>ev. case ev of WriteFile f c \<Rightarrow> [f] | CopyFile s d \<Rightarrow> [d]
                                    | Shell c \<Rightarrow> [] | Print s \<Rightarrow> []) out)"

definition steps_complete :: "(string list \<Rightarrow> string list) \<Rightarrow> env \<Rightarrow> bool" where
  "steps_complete iter env \<longleftrightarrow>
     graphblas_exists env \<and> returncode env = 0 \<and>
     (\<exists>groups text groups_no_complex text_no_complex.
        parse_header iter False (processed env) = Inr groups \<and>
        create_header_text iter groups None None = Inr text \<and>
        parse_header iter True (processed env) = Inr groups_no_complex \<and>
        create_header_text iter groups_no_complex None None = Inr text_no_complex)"

section \<open>Vocabulary of the properties\<close>

text \<open>
  The thirteen keys of the dictionary that \<open>get_groups\<close> returns, in insertion order.
  Two groups hold whole enum typedefs (texts of several lines); the other eleven hold
  single lines of the generated text.
\<close>

definition group_names :: "string list" where
  "group_names = [''GxB methods'', ''GrB methods'', ''GB methods'', ''GrB objects'',
     ''GxB objects'', ''GxB const'', ''GrB const'', ''GxB typedef'', ''GrB typedef'',
     ''GrB typedef enums'', ''GxB typedef enums'', ''GxB typedef funcs'', ''not seen'']"

definition enum_group_names :: "string list" where
  "enum_group_names = [''GrB typedef enums'', ''GxB typedef enums'']"

text \<open>All members of the line groups, all members of the enum groups, in order.\<close>

definition lines_of :: "groups \<Rightarrow> string list" where
  "lines_of g = concat (map snd (filter (\<lambda>p. fst p \<notin> set enum_group_names) g))"

definition enums_of :: "groups \<Rightarrow> string list" where
  "enums_of g = concat (map snd (filter (\<lambda>p. fst p \<in> set enum_group_names) g))"

text \<open>The lines of the enum typedefs held in the enum groups.\<close>

definition enum_lines :: "groups \<Rightarrow> string set" where
  "enum_lines g = (\<Union>e \<in> set (enums_of g). set (splitlines e))"

text \<open>
  What holds of \<open>seen\<close> and \<open>groups\<close> between two blocks of \<open>get_groups\<close>, when the
  keys set so far are \<open>K\<close>.
\<close>

definition groups_inv ::
  "string list \<Rightarrow> string list \<Rightarrow> string list \<Rightarrow> pyset \<times> groups \<Rightarrow> bool" where
  "groups_inv lines enums K st \<longleftrightarrow>
     map fst (snd st) = K \<and> distinct (lines_of (snd st)) \<and>
     set (lines_of (snd st)) \<subseteq> set lines \<and> set (enums_of (snd st)) \<subseteq> set enums \<and>
     set (fst st) = set (lines_of (snd st)) \<union> enum_lines (snd st)"

text \<open>
  A small header: two enum typedefs and one function, as \<open>pycparser\<close> prints them,
  and the groups that \<open>get_groups\<close> computes for it.
\<close>

definition example_header :: ast where
  "example_header = \<lparr> generated_text =
      ''typedef enum \<newline>{\<newline>  GrB_SUCCESS = 0\<newline>} GrB_Info;\<newline>typedef enum \<newline>{\<newline>  GxB_DEFAULT = 0\<newline>} GxB_Option;\<newline>extern GrB_Info GrB_init(int mode);\<newline>'',
     enum_typedefs = [''typedef enum \<newline>{\<newline>  GrB_SUCCESS = 0\<newline>} GrB_Info'',
                      ''typedef enum \<newline>{\<newline>  GxB_DEFAULT = 0\<newline>} GxB_Option''],
     extern_functions = [\<lparr>node_name = ''GrB_init'', node_return_type = ''GrB_Info'',
                           node_text = ''extern GrB_Info GrB_init(int mode)''\<rparr>] \<rparr>"

definition example_groups :: groups where
  "example_groups = [(''GxB methods'', []),
      (''GrB methods'', [''extern GrB_Info GrB_init(int mode);'']),
      (''GB methods'', []), (''GrB objects'', []), (''GxB objects'', []),
      (''GxB const'', []), (''GrB const'', []), (''GxB typedef'', []),
      (''GrB typedef'', []),
      (''GrB typedef enums'',
       [''typedef enum \<newline>{\<newline>  GrB_SUCCESS = 0\<newline>} GrB_Info;'']),
      (''GxB typedef enums'',
       [''typedef enum \<newline>{\<newline>  GxB_DEFAULT = 0\<newline>} GxB_Option;'']),
      (''GxB typedef funcs'', []), (''not seen'', [])]"

text \<open>
  Vocabulary for the enums: a field line without its trailing comma and surrounding
  white space, its name (the first of its pieces), whether its name passes the
  filters, and the text of an enum typedef with given fields and closing line.
\<close>

definition clean_field :: "string \<Rightarrow> string" where
  "clean_field field = strip (if endswith field '','' then butlast field else field)"

definition field_name :: "string \<Rightarrow> string" where
  "field_name field = hd (str_split CHR '' '' (clean_field field))"

definition field_survives :: "bool \<Rightarrow> string \<Rightarrow> bool" where
  "field_survives skip_complex field \<longleftrightarrow>
     field_name field \<notin> set DEPRECATED \<and> \<not> (skip_complex \<and> has_complex (field_name field))"

definition enum_text :: "string list \<Rightarrow> string \<Rightarrow> string" where
  "enum_text fs cname =
     join ''\<newline>'' ([''typedef enum'', ''{''] @ map (\<lambda>f. ''  '' @ f @ '','') (butlast fs)
        @ [''  '' @ last fs, cname])"



text \<open>
  Vocabulary for \<open>get_group_info\<close>: the keys that it sets itself; the copy of the
  other groups (\<open>for key in groups.keys() - rv.keys(): rv[key] = groups[key]\<close>); the
  function nodes whose name starts with a prefix; the name that the handlers of
  objects and typedefs read off a line (its last piece without the semicolon); the
  filters that the handlers apply; and the name and the field lines that
  \<open>handle_enums\<close> reads off an enum typedef.
\<close>

definition info_keys :: "string list" where
  "info_keys = [''GrB const'', ''GxB const'', ''GrB objects'', ''GxB objects'',
     ''GrB typedef enums'', ''GxB typedef enums'', ''GrB typedef'', ''GxB typedef'',
     ''GxB typedef funcs'', ''GrB methods'', ''GxB methods'', ''GB methods'']"

definition copy_rest :: "groups \<Rightarrow> string list \<Rightarrow> group_info \<Rightarrow> group_info" where
  "copy_rest groups keys rv =
     fold (\<lambda>key rv.
             case map_of groups key of
               Some lines \<Rightarrow> AList.update key (map Str lines) rv
             | None \<Rightarrow> rv) keys rv"

definition nodes_with :: "string \<Rightarrow> ast \<Rightarrow> func_node list" where
  "nodes_with p a = filter (\<lambda>node. startswith (node_name node) p) (extern_functions a)"

definition decl_name :: "string \<Rightarrow> string" where
  "decl_name line = butlast (last (str_split CHR '' '' line))"

definition keep_decl :: "bool \<Rightarrow> string \<Rightarrow> bool" where
  "keep_decl skip_complex line \<longleftrightarrow>
     decl_name line \<notin> set DEPRECATED \<and> \<not> (skip_complex \<and> has_complex line)"

definition keep_const :: "bool \<Rightarrow> string \<Rightarrow> bool" where
  "keep_const skip_complex line \<longleftrightarrow>
     str_replace ''(void)'' ''()'' (decl_name line) \<notin> set DEPRECATED \<and>
     \<not> (skip_complex \<and> has_complex line)"

definition keep_typedef_func :: "bool \<Rightarrow> string \<Rightarrow> bool" where
  "keep_typedef_func skip_complex line \<longleftrightarrow> \<not> (skip_complex \<and> has_complex line)"

definition keep_node :: "bool \<Rightarrow> func_node \<Rightarrow> bool" where
  "keep_node skip_complex node \<longleftrightarrow>
     node_name node \<notin> set DEPRECATED \<and> \<not> (skip_complex \<and> has_complex (node_text node @ '';''))"

definition enum_norm :: "string \<Rightarrow> string" where
  "enum_norm text0 = str_replace ''enum \<newline>'' ''enum\<newline>'' text0"

definition enum_name :: "string \<Rightarrow> string" where
  "enum_name text0 = strip (butlast (tl (last (splitlines (enum_norm text0)))))"

definition enum_fields :: "string \<Rightarrow> string list" where
  "enum_fields text0 = butlast (drop 2 (splitlines (enum_norm text0)))"

definition keep_enum :: "bool \<Rightarrow> string \<Rightarrow> bool" where
  "keep_enum skip_complex text0 \<longleftrightarrow>
     enum_name text0 \<notin> set DEPRECATED \<and> \<not> (skip_complex \<and> has_complex (enum_name text0)) \<and>
     filter (field_survives skip_complex) (enum_fields text0) \<noteq> []"

definition emitted_enum_text :: "bool \<Rightarrow> string \<Rightarrow> string" where
  "emitted_enum_text skip_complex text0 =
     enum_text (map clean_field (filter (field_survives skip_complex) (enum_fields text0)))
       (last (splitlines (enum_norm text0)))"

text \<open>The two messages of step 6 of \<open>main\<close>.\<close>

definition warning_text :: "(string list \<Rightarrow> string list) \<Rightarrow> env \<Rightarrow> string" where
  "warning_text iter env =
     ''WARNING: the following #define values weren't found in ''
       @ path_join (thisdir env) ''GraphBLAS-orig.h'' @ '': ''
       @ join '', '' (sort (iter (extra_defines env)))"

definition unknown_text :: "(string list \<Rightarrow> string list) \<Rightarrow> env \<Rightarrow> string" where
  "unknown_text iter env =
     ''Unknown #define values found in '' @ path_join (thisdir env) ''GraphBLAS-orig.h'' @ '': ''
       @ join '', '' (sort (iter (unknown_defines env)))"

text \<open>The records of a group of the result, leaving out plain lines.\<close>

definition emitted_infos :: "group_info \<Rightarrow> string \<Rightarrow> info list" where
  "emitted_infos rv key =
     (case map_of rv key of
        Some es \<Rightarrow> concat (map (\<lambda>e. case e of Dict i \<Rightarrow> [i] | Str s \<Rightarrow> []) es)
      | None \<Rightarrow> [])"

text \<open>The keys of the groups whose records carry one line of the header each.\<close>

definition line_info_keys :: "string list" where
  "line_info_keys = [''GrB const'', ''GxB const'', ''GrB objects'', ''GxB objects'',
     ''GrB typedef'', ''GxB typedef'', ''GxB typedef funcs'',
     ''GrB methods'', ''GxB methods'', ''GB methods'']"

section \<open>Examples\<close>

text \<open>What \<open>parse_header\<close> and \<open>create_header_text\<close> compute for the example header.\<close>

definition example_info :: group_info where
  "example_info =
     [(''GrB const'', []), (''GxB const'', []), (''GrB objects'', []), (''GxB objects'', []),
      (''GrB typedef enums'',
       [Dict \<lparr>info_text = ''typedef enum\<newline>{\<newline>  GrB_SUCCESS = 0\<newline>} GrB_Info;'',
               info_orig_text = Some ''typedef enum\<newline>{\<newline>  GrB_SUCCESS = 0\<newline>} GrB_Info;'',
               info_name = None, info_group = None\<rparr>]),
      (''GxB typedef enums'',
       [Dict \<lparr>info_text = ''typedef enum\<newline>{\<newline>  GxB_DEFAULT = 0\<newline>} GxB_Option;'',
               info_orig_text = Some ''typedef enum\<newline>{\<newline>  GxB_DEFAULT = 0\<newline>} GxB_Option;'',
               info_name = None, info_group = None\<rparr>]),
      (''GrB typedef'', []), (''GxB typedef'', []), (''GxB typedef funcs'', []),
      (''GrB methods'',
       [Dict \<lparr>info_text = ''extern GrB_Info GrB_init(int mode);'', info_orig_text = None,
               info_name = Some ''GrB_init'', info_group = Some ''core''\<rparr>]),
      (''GxB methods'', []), (''GB methods'', []), (''not seen'', [])]"

definition example_text :: "string list" where
  "example_text =
     [''/* This file is automatically generated */'',
      ''/* GrB typedefs */'', [], ''/* GxB typedefs */'', [],
      ''/* GxB typedefs (functions) */'', [], ''/* GrB enums */'',
      ''typedef enum\<newline>{\<newline>  GrB_SUCCESS = 0\<newline>} GrB_Info;'', [],
      ''/* GxB enums */'',
      ''typedef enum\<newline>{\<newline>  GxB_DEFAULT = 0\<newline>} GxB_Option;'', [],
      ''/* GrB consts */'', [], ''/* GxB consts */'', [],
      ''/* GrB objects */'', [], ''/* GrB objects (extended) */'', [],
      ''/* GxB objects */'', [], ''/****************'',
      ''* GrB functions *'', ''****************/'', [], ''/* core */'',
      ''extern GrB_Info GrB_init(int mode);'', [], ''/***************'',
      ''* GB functions *'', ''***************/'', [], ''/****************'',
      ''* GxB functions *'', ''****************/'', [],
      ''/* int DEFINES */'', ''#define GRB_SUBVERSION ...'',
      ''#define GRB_VERSION ...'', ''#define GxB_ANY_SPARSITY ...'',
      ''#define GxB_AUTO_SPARSITY ...'', ''#define GxB_BACKWARDS ...'',
      ''#define GxB_BEGIN ...'', ''#define GxB_BITMAP ...'',
      ''#define GxB_CHUNK ...'', ''#define GxB_END ...'',
      ''#define GxB_FULL ...'', ''#define GxB_GPU_CHUNK ...'',
      ''#define GxB_GPU_CONTROL ...'', ''#define GxB_HYPERSPARSE ...'',
      ''#define GxB_IMPLEMENTATION ...'',
      ''#define GxB_IMPLEMENTATION_MAJOR ...'',
      ''#define GxB_IMPLEMENTATION_MINOR ...'',
      ''#define GxB_IMPLEMENTATION_SUB ...'', ''#define GxB_INC ...'',
      ''#define GxB_INDEX_MAX ...'', ''#define GxB_NBITMAP_SWITCH ...'',
      ''#define GxB_NTHREADS ...'', ''#define GxB_RANGE ...'',
      ''#define GxB_SPARSE ...'', ''#define GxB_SPEC_MAJOR ...'',
      ''#define GxB_SPEC_MINOR ...'', ''#define GxB_SPEC_SUB ...'',
      ''#define GxB_SPEC_VERSION ...'', ''#define GxB_STDC_VERSION ...'',
      ''#define GxB_STRIDE ...'', [], ''/* char* DEFINES */'',
      ''extern char *GxB_IMPLEMENTATION_ABOUT_STR;'',
      ''extern char *GxB_IMPLEMENTATION_DATE_STR;'',
      ''extern char *GxB_IMPLEMENTATION_LICENSE_STR;'',
      ''extern char *GxB_IMPLEMENTATION_NAME_STR;'',
      ''extern char *GxB_SPEC_ABOUT_STR;'',
      ''extern char *GxB_SPEC_DATE_STR;'']"

text \<open>
  A second header: an enum whose only field is deprecated, an enum with a complex
  field and a field whose value names it, a deprecated object, a complex object, and
  a deprecated function; with its groups and the two results of \<open>get_group_info\<close>.
\<close>

definition example_header2 :: ast where
  "example_header2 = \<lparr> generated_text =
      ''typedef enum \<newline>{\<newline>  GrB_SCMP = 2\<newline>} GrB_Old_Value;\<newline>typedef enum \<newline>{\<newline>  GxB_FC32_code = 2,\<newline>  GxB_Alias = GxB_FC32_code\<newline>} GxB_Codes;\<newline>extern GrB_UnaryOp GxB_ABS_BOOL;\<newline>extern GrB_UnaryOp GrB_ABS_INT8;\<newline>extern GrB_UnaryOp GxB_ABS_FC32;\<newline>extern GrB_Info GrB_init(int mode);\<newline>extern GrB_Info GxB_kron(int x);\<newline>'',
     enum_typedefs = [''typedef enum \<newline>{\<newline>  GrB_SCMP = 2\<newline>} GrB_Old_Value'',
                      ''typedef enum \<newline>{\<newline>  GxB_FC32_code = 2,\<newline>  GxB_Alias = GxB_FC32_code\<newline>} GxB_Codes''],
     extern_functions =
       [\<lparr>node_name = ''GrB_init'', node_return_type = ''GrB_Info'',
          node_text = ''extern GrB_Info GrB_init(int mode)''\<rparr>,
        \<lparr>node_name = ''GxB_kron'', node_return_type = ''GrB_Info'',
          node_text = ''extern GrB_Info GxB_kron(int x)''\<rparr>] \<rparr>"

definition example_groups2 :: groups where
  "example_groups2 =
     [(''GxB methods'', [''extern GrB_Info GxB_kron(int x);'']),
      (''GrB methods'', [''extern GrB_Info GrB_init(int mode);'']),
      (''GB methods'', []),
      (''GrB objects'',
       [''extern GrB_UnaryOp GrB_ABS_INT8;'', ''extern GrB_UnaryOp GxB_ABS_BOOL;'',
        ''extern GrB_UnaryOp GxB_ABS_FC32;'']),
      (''GxB objects'', []), (''GxB const'', []), (''GrB const'', []),
      (''GxB typedef'', []), (''GrB typedef'', []),
      (''GrB typedef enums'',
       [''typedef enum \<newline>{\<newline>  GrB_SCMP = 2\<newline>} GrB_Old_Value;'']),
      (''GxB typedef enums'',
       [''typedef enum \<newline>{\<newline>  GxB_FC32_code = 2,\<newline>  GxB_Alias = GxB_FC32_code\<newline>} GxB_Codes;'']),
      (''GxB typedef funcs'', []), (''not seen'', [])]"

definition example_info2 :: group_info where
  "example_info2 =
     [(''GrB const'', []), (''GxB const'', []),
      (''GrB objects'',
       [Dict \<lparr>info_text = ''extern GrB_UnaryOp GrB_ABS_INT8;'', info_orig_text = None,
               info_name = None, info_group = None\<rparr>,
        Dict \<lparr>info_text = ''extern GrB_UnaryOp GxB_ABS_FC32;'', info_orig_text = None,
               info_name = None, info_group = None\<rparr>]),
      (''GxB objects'', []), (''GrB typedef enums'', []),
      (''GxB typedef enums'',
       [Dict \<lparr>info_text =
                 ''typedef enum\<newline>{\<newline>  GxB_FC32_code = 2,\<newline>  GxB_Alias = GxB_FC32_code\<newline>} GxB_Codes;'',
               info_orig_text =
                 Some ''typedef enum\<newline>{\<newline>  GxB_FC32_code = 2,\<newline>  GxB_Alias = GxB_FC32_code\<newline>} GxB_Codes;'',
               info_name = None, info_group = None\<rparr>]),
      (''GrB typedef'', []), (''GxB typedef'', []), (''GxB typedef funcs'', []),
      (''GrB methods'',
       [Dict \<lparr>info_text = ''extern GrB_Info GrB_init(int mode);'', info_orig_text = None,
               info_name = Some ''GrB_init'', info_group = Some ''core''\<rparr>]),
      (''GxB methods'', []), (''GB methods'', []), (''not seen'', [])]"

definition example_info2_no_complex :: group_info where
  "example_info2_no_complex =
     [(''GrB const'', []), (''GxB const'', []),
      (''GrB objects'',
       [Dict \<lparr>info_text = ''extern GrB_UnaryOp GrB_ABS_INT8;'', info_orig_text = None,
               info_name = None, info_group = None\<rparr>]),
      (''GxB objects'', []), (''GrB typedef enums'', []),
      (''GxB typedef enums'',
       [Dict \<lparr>info_text =
                 ''typedef enum\<newline>{\<newline>  GxB_Alias = GxB_FC32_code\<newline>} GxB_Codes;'',
               info_orig_text =
                 Some ''typedef enum\<newline>{\<newline>  GxB_FC32_code = 2,\<newline>  GxB_Alias = GxB_FC32_code\<newline>} GxB_Codes;'',
               info_name = None, info_group = None\<rparr>]),
      (''GrB typedef'', []), (''GxB typedef'', []), (''GxB typedef funcs'', []),
      (''GrB methods'',
       [Dict \<lparr>info_text = ''extern GrB_Info GrB_init(int mode);'', info_orig_text = None,
               info_name = Some ''GrB_init'', info_group = Some ''core''\<rparr>]),
      (''GxB methods'', []), (''GB methods'', []), (''not seen'', [])]"

text \<open>A grouping with no declaration at all, and the header text for it with empty tables.\<close>

definition empty_group_info :: group_info where
  "empty_group_info = map (\<lambda>k. (k, [])) info_keys"

definition empty_header_text :: "string list" where
  "empty_header_text =
     [AUTO, ''/* GrB typedefs */'', [], ''/* GxB typedefs */'', [],
      ''/* GxB typedefs (functions) */'', [], ''/* GrB enums */'', ''/* GxB enums */'',
      ''/* GrB consts */'', [], ''/* GxB consts */'', [], ''/* GrB objects */'', [],
      ''/* GrB objects (extended) */'', [], ''/* GxB objects */'', [],
      ''/****************'', ''* GrB functions *'', ''****************/'', [],
      ''/***************'', ''* GB functions *'', ''***************/'', [],
      ''/****************'', ''* GxB functions *'', ''****************/'', [],
      ''/* int DEFINES */'', [], ''/* char* DEFINES */'']"

text \<open>
  Environments of \<open>main\<close>: the input header is missing; the preprocessor fails on a
  header that has an unknown define; the run completes on a header with an unknown
  define; the run completes on a header that has one of the expected defines only.
\<close>

definition missing_env :: env where
  "missing_env = \<lparr>arg_graphblas = ''/usr/include/GraphBLAS.h'', arg_show_skipped = False,
     thisdir = ''.'', pycparser_dir = ''/lib/pycparser'', graphblas_exists = False,
     returncode = 0, processed = Inr example_header, define_matches = []\<rparr>"

definition failing_env :: env where
  "failing_env = \<lparr>arg_graphblas = ''/usr/include/GraphBLAS.h'', arg_show_skipped = False,
     thisdir = ''.'', pycparser_dir = ''/lib/pycparser'', graphblas_exists = True,
     returncode = 1, processed = Inr example_header,
     define_matches = [''#define GxB_NEW_THING '']\<rparr>"

definition unknown_env :: env where
  "unknown_env = \<lparr>arg_graphblas = ''/usr/include/GraphBLAS.h'', arg_show_skipped = False,
     thisdir = ''.'', pycparser_dir = ''/lib/pycparser'', graphblas_exists = True,
     returncode = 0, processed = Inr example_header,
     define_matches = [''#define GxB_NEW_THING '']\<rparr>"

definition ok_env :: env where
  "ok_env = \<lparr>arg_graphblas = ''/usr/include/GraphBLAS.h'', arg_show_skipped = True,
     thisdir = ''.'', pycparser_dir = ''/lib/pycparser'', graphblas_exists = True,
     returncode = 0, processed = Inr example_header,
     define_matches = [''#define GxB_CHUNK '', ''#define GRAPHBLAS_H'' @ [CHR 0x0A]]\<rparr>"

section \<open>Properties\<close>

subsection \<open>\<open>sort_key\<close>\<close>

lemma str_replace_single:
  "str_replace [a] new s = concat (map (\<lambda>c. if c = a then new else [c]) s)"
  by (induction s) auto

lemma sort_key_str_append:
  "sort_key_str (p @ q) = sort_key_str p @ sort_key_str q"
  by (simp add: sort_key_str_def str_replace_single)

lemma append_less_cancel: "(p @ x < p @ y) = (x < (y::string))"
  by (induction p) auto

lemma sorted_key_order:
  fixes f :: "'a \<Rightarrow> 'b::linorder"
  assumes "f a < f b" "i < length xs" "j < length xs"
      "sort_key f xs ! i = b" "sort_key f xs ! j = a"
  shows "j < i"
proof (rule ccontr)
  assume "\<not> j < i"
  then have ij: "i \<le> j" by simp
  have "sorted (map f (sort_key f xs))" by (rule sorted_sort_key)
  then have "map f (sort_key f xs) ! i \<le> map f (sort_key f xs) ! j"
    using ij assms(3) by (simp add: sorted_iff_nth_mono)
  then have "f b \<le> f a" using assms by simp
  with assms(1) show False by simp
qed

text \<open>
  Claim C8. \<open>sort_key\<close> maps a string to the same string with every \<open>8\<close> replaced
  by \<open>08\<close>. Hence of two names that differ only in having \<open>8\<close> where the other has
  \<open>16\<close>, the one with \<open>8\<close> has the smaller key although it is the larger string, and in
  any list sorted with this key it stands before the one with \<open>16\<close>.
\<close>

theorem sort_key_orders_width_suffix:
  "sort_key_str s = concat (map (\<lambda>c. if c = CHR ''8'' then ''08'' else [c]) s)
   \<and> sort_key_str (p @ ''8'' @ q) < sort_key_str (p @ ''16'' @ q)
   \<and> p @ ''16'' @ q < p @ ''8'' @ q
   \<and> (\<forall>i j. i < length xs \<and> j < length xs
          \<and> sort_key sort_key_str xs ! i = p @ ''16'' @ q
          \<and> sort_key sort_key_str xs ! j = p @ ''8'' @ q \<longrightarrow> j < i)"
proof -
  have a: "sort_key_str s = concat (map (\<lambda>c. if c = CHR ''8'' then ''08'' else [c]) s)"
    by (simp add: sort_key_str_def str_replace_single)
  have b: "sort_key_str (p @ ''8'' @ q) < sort_key_str (p @ ''16'' @ q)"
    by (simp add: sort_key_str_append append_less_cancel) (simp add: sort_key_str_def)
  have c: "p @ ''16'' @ q < p @ ''8'' @ q"
    by (simp add: append_less_cancel)
  from b have d: "\<forall>i j. i < length xs \<and> j < length xs
          \<and> sort_key sort_key_str xs ! i = p @ ''16'' @ q
          \<and> sort_key sort_key_str xs ! j = p @ ''8'' @ q \<longrightarrow> j < i"
    by (blast intro: sorted_key_order)
  from a b c d show ?thesis by blast
qed

text \<open>The theorem at the names \<open>GrB_INT8\<close> and \<open>GrB_INT16\<close>.\<close>

theorem sort_key_orders_width_suffix_witness:
  "sort_key sort_key_str [''GrB_INT16'', ''GrB_INT8''] = [''GrB_INT8'', ''GrB_INT16'']
   \<and> (1::nat) < length [''GrB_INT16'', ''GrB_INT8'']
   \<and> (0::nat) < length [''GrB_INT16'', ''GrB_INT8'']
   \<and> sort_key sort_key_str [''GrB_INT16'', ''GrB_INT8''] ! 1 = ''GrB_INT'' @ ''16'' @ []
   \<and> sort_key sort_key_str [''GrB_INT16'', ''GrB_INT8''] ! 0 = ''GrB_INT'' @ ''8'' @ []
   \<and> (0::nat) < 1"
  using sort_key_orders_width_suffix
    [of "[]" "''GrB_INT''" "[]" "[''GrB_INT16'', ''GrB_INT8'']"]
  by (simp add: sort_key_str_def)

subsection \<open>\<open>get_groups\<close>: the groups partition the lines\<close>

lemma set_set_comp [simp]: "set (set_comp P xs) = {x \<in> set xs. P x}"
  by (simp add: set_comp_def)

lemma distinct_set_comp [simp]: "distinct (set_comp P xs)"
  by (simp add: set_comp_def)

lemma set_set_minus [simp]: "set (set_minus a b) = set a - set b"
  by (auto simp: set_minus_def)

lemma distinct_set_minus [simp]: "distinct a \<Longrightarrow> distinct (set_minus a b)"
  by (simp add: set_minus_def)

lemma set_set_update [simp]: "set (set_update s xs) = set s \<union> set xs"
  by (auto simp: set_update_def)

lemma set_iter: "set_order iter \<Longrightarrow> set (iter xs) = set xs"
  unfolding set_order_def by (metis set_mset_mset)

lemma distinct_iter: "set_order iter \<Longrightarrow> distinct (iter xs) = distinct xs"
  unfolding set_order_def by (metis distinct_count_atmost_1 mset_eq_setD)

lemma set_sorted_set: "set_order iter \<Longrightarrow> set (sorted_set iter k v) = set v"
  by (simp add: sorted_set_def set_iter)

lemma distinct_sorted_set: "set_order iter \<Longrightarrow> distinct (sorted_set iter k v) = distinct v"
  by (simp add: sorted_set_def distinct_iter)

lemma update_fresh: "k \<notin> fst ` set g \<Longrightarrow> AList.update k v g = g @ [(k, v)]"
  by (induction g) auto

lemma set_fold_update:
  "set (fold (\<lambda>val seen. set_update seen (f val)) vs seen) = set seen \<union> (\<Union>v \<in> set vs. set (f v))"
  by (induction vs arbitrary: seen) auto

lemma bucket_inv:
  assumes "set_order iter" "groups_inv lines enums K st" "n \<notin> set K" "n \<notin> set enum_group_names"
  shows "groups_inv lines enums (K @ [n]) (bucket iter lines n P st)"
proof -
  obtain seen g where st: "st = (seen, g)" by (cases st)
  from assms(2) st have K: "map fst g = K" by (simp add: groups_inv_def)
  from assms(3) have "n \<notin> set (map fst g)" unfolding K .
  then have fresh: "n \<notin> fst ` set g" by simp
  let ?vals = "set_minus (set_comp P lines) seen"
  have b: "bucket iter lines n P (seen, g) =
      (set_update seen ?vals, g @ [(n, sorted_set iter sort_key_str ?vals)])"
    by (simp add: bucket_def Let_def update_fresh[OF fresh])
  show ?thesis
    using assms(1,2,4) K unfolding st b groups_inv_def
    by (auto simp: lines_of_def enums_of_def enum_lines_def set_sorted_set distinct_sorted_set)
qed

lemma enum_bucket_inv:
  assumes "set_order iter" "groups_inv lines enums K st" "n \<notin> set K" "n \<in> set enum_group_names"
  shows "groups_inv lines enums (K @ [n]) (enum_bucket iter enums n m st)"
proof -
  obtain seen g where st: "st = (seen, g)" by (cases st)
  from assms(2) st have K: "map fst g = K" by (simp add: groups_inv_def)
  from assms(3) have "n \<notin> set (map fst g)" unfolding K .
  then have fresh: "n \<notin> fst ` set g" by simp
  let ?vals = "set_comp (str_in m) enums"
  have b: "enum_bucket iter enums n m (seen, g) =
      (fold (\<lambda>val seen. set_update seen (splitlines val)) (iter ?vals) seen,
       g @ [(n, sorted_set iter enum_key ?vals)])"
    by (simp add: enum_bucket_def Let_def update_fresh[OF fresh])
  show ?thesis
    using assms(1,2,4) K unfolding st b groups_inv_def
    by (auto simp: lines_of_def enums_of_def enum_lines_def set_sorted_set set_fold_update set_iter)
qed

lemma getitem_Inr: "getitem d k = Inr v \<longleftrightarrow> map_of d k = Some v"
  by (simp add: getitem_def split: option.splits)

lemma bucket_snd:
  "n \<notin> set (map fst (snd st)) \<Longrightarrow>
   snd (bucket iter lines n P st) =
     snd st @ [(n, sorted_set iter sort_key_str (set_minus (set_comp P lines) (fst st)))]"
  by (cases st) (simp add: bucket_def Let_def update_fresh)

lemma map_of_enums_of:
  "map_of g k = Some v \<Longrightarrow> k \<in> set enum_group_names \<Longrightarrow> set v \<subseteq> set (enums_of g)"
  by (drule map_of_SomeD) (force simp: enums_of_def)

lemma get_groups_shape:
  assumes so: "set_order iter" and ok: "get_groups iter a = Inr g"
  shows "\<exists>st ns. groups_inv (splitlines (generated_text a)) (VisitEnumTypedef_results a)
            (butlast group_names) st \<and>
          ns = sorted_set iter sort_key_str (set_minus (remdups (splitlines (generated_text a))) (fst st)) \<and>
          g = snd st @ [(''not seen'', ns)] \<and>
          set (VisitEnumTypedef_results a) \<subseteq> set (enums_of (snd st))"
proof -
  define lines where "lines = splitlines (generated_text a)"
  define enums where "enums = VisitEnumTypedef_results a"
  define s0 :: "pyset \<times> groups" where "s0 = ([], [])"
  define s1 where "s1 = bucket iter lines ''GxB methods'' (str_in ''extern GrB_Info GxB'') s0"
  define s2 where "s2 = bucket iter lines ''GrB methods'' (str_in ''extern GrB_Info GrB'') s1"
  define s3 where "s3 = bucket iter lines ''GB methods'' (str_in ''extern GrB_Info GB'') s2"
  define s4 where "s4 = bucket iter lines ''GrB objects'' (str_in ''extern GrB'') s3"
  define s5 where "s5 = bucket iter lines ''GxB objects'' (str_in ''extern GxB'') s4"
  define s6 where "s6 = bucket iter lines ''GxB const''
                (\<lambda>x. str_in ''extern const'' x \<and> str_in ''GxB'' x) s5"
  define s7 where "s7 = bucket iter lines ''GrB const''
                (\<lambda>x. str_in ''extern const'' x \<and> str_in ''GrB'' x) s6"
  define s8 where "s8 = bucket iter lines ''GxB typedef''
                (\<lambda>x. str_in ''typedef'' x \<and> str_in ''GxB'' x \<and> \<not> str_in ''('' x) s7"
  define s9 where "s9 = bucket iter lines ''GrB typedef''
                (\<lambda>x. str_in ''typedef'' x \<and> str_in ''GrB'' x \<and> \<not> str_in ''('' x) s8"
  define s10 where "s10 = enum_bucket iter enums ''GrB typedef enums'' ''} GrB'' s9"
  define s11 where "s11 = enum_bucket iter enums ''GxB typedef enums'' ''} GxB'' s10"
  define s12 where "s12 = bucket iter lines ''GxB typedef funcs''
                (\<lambda>x. str_in ''typedef'' x \<and> str_in ''GxB'' x) s11"
  define ns where "ns = sorted_set iter sort_key_str (set_minus (remdups lines) (fst s12))"
  note defs = s1_def s2_def s3_def s4_def s5_def s6_def s7_def s8_def s9_def s10_def
    s11_def s12_def
  have i0: "groups_inv lines enums [] s0"
    by (simp add: groups_inv_def s0_def lines_of_def enums_of_def enum_lines_def)
  have i1: "groups_inv lines enums [''GxB methods''] s1"
    unfolding s1_def using bucket_inv[OF so i0] by (simp add: enum_group_names_def)
  have i2: "groups_inv lines enums [''GxB methods'', ''GrB methods''] s2"
    unfolding s2_def using bucket_inv[OF so i1] by (simp add: enum_group_names_def)
  have i3: "groups_inv lines enums [''GxB methods'', ''GrB methods'', ''GB methods''] s3"
    unfolding s3_def using bucket_inv[OF so i2] by (simp add: enum_group_names_def)
  have i4: "groups_inv lines enums (take 4 group_names) s4"
    unfolding s4_def using bucket_inv[OF so i3] by (simp add: enum_group_names_def group_names_def)
  have i5: "groups_inv lines enums (take 5 group_names) s5"
    unfolding s5_def using bucket_inv[OF so i4] by (simp add: enum_group_names_def group_names_def)
  have i6: "groups_inv lines enums (take 6 group_names) s6"
    unfolding s6_def using bucket_inv[OF so i5] by (simp add: enum_group_names_def group_names_def)
  have i7: "groups_inv lines enums (take 7 group_names) s7"
    unfolding s7_def using bucket_inv[OF so i6] by (simp add: enum_group_names_def group_names_def)
  have i8: "groups_inv lines enums (take 8 group_names) s8"
    unfolding s8_def using bucket_inv[OF so i7] by (simp add: enum_group_names_def group_names_def)
  have i9: "groups_inv lines enums (take 9 group_names) s9"
    unfolding s9_def using bucket_inv[OF so i8] by (simp add: enum_group_names_def group_names_def)
  have i10: "groups_inv lines enums (take 10 group_names) s10"
    unfolding s10_def using enum_bucket_inv[OF so i9] by (simp add: enum_group_names_def group_names_def)
  have i11: "groups_inv lines enums (take 11 group_names) s11"
    unfolding s11_def using enum_bucket_inv[OF so i10] by (simp add: enum_group_names_def group_names_def)
  have i12: "groups_inv lines enums (butlast group_names) s12"
    unfolding s12_def using bucket_inv[OF so i11] by (simp add: enum_group_names_def group_names_def)
  have ok': "get_groups iter a = Inr g" by fact
  have g0: "g = AList.update ''not seen'' ns (snd s12) \<and>
       set_minus (set_minus (remdups enums) (the (map_of (snd s11) ''GrB typedef enums'')))
           (the (map_of (snd s11) ''GxB typedef enums'')) = []"
    using ok' unfolding get_groups_def Let_def
    unfolding lines_def[symmetric] enums_def[symmetric] s0_def[symmetric]
    unfolding s1_def[symmetric] unfolding s2_def[symmetric] unfolding s3_def[symmetric]
    unfolding s4_def[symmetric] unfolding s5_def[symmetric] unfolding s6_def[symmetric]
    unfolding s7_def[symmetric] unfolding s8_def[symmetric] unfolding s9_def[symmetric]
    unfolding s10_def[symmetric] unfolding s11_def[symmetric] unfolding s12_def[symmetric]
    unfolding ns_def[symmetric]
    by (auto split: if_splits sum.splits list.splits simp: getitem_Inr)
  from i11 have k11: "map fst (snd s11) = take 11 group_names"
    by (simp add: groups_inv_def)
  from i12 have k12: "map fst (snd s12) = butlast group_names"
    by (simp add: groups_inv_def)
  have "''GrB typedef enums'' \<in> fst ` set (snd s11)" "''GxB typedef enums'' \<in> fst ` set (snd s11)"
    unfolding set_map[symmetric] k11 by (simp_all add: group_names_def)
  then obtain v1 v2 where v: "map_of (snd s11) ''GrB typedef enums'' = Some v1"
      "map_of (snd s11) ''GxB typedef enums'' = Some v2"
    by (metis map_of_eq_None_iff not_Some_eq)
  have sub: "set v1 \<subseteq> set (enums_of (snd s11))" "set v2 \<subseteq> set (enums_of (snd s11))"
    using v by (auto dest!: map_of_enums_of simp: enum_group_names_def)
  have fresh12: "''GxB typedef funcs'' \<notin> set (map fst (snd s11))"
    unfolding k11 by (simp add: group_names_def)
  have e12: "enums_of (snd s12) = enums_of (snd s11)"
    unfolding s12_def bucket_snd[OF fresh12] by (simp add: enums_of_def enum_group_names_def)
  from g0 v have "set enums \<subseteq> set v1 \<union> set v2"
    by (auto simp: set_minus_def filter_empty_conv)
  with sub e12 have enums_sub: "set enums \<subseteq> set (enums_of (snd s12))" by auto
  have "''not seen'' \<notin> fst ` set (snd s12)"
    unfolding set_map[symmetric] k12 by (simp add: group_names_def)
  with g0 have g: "g = snd s12 @ [(''not seen'', ns)]"
    by (simp add: update_fresh)
  show ?thesis
    using i12 g enums_sub unfolding ns_def lines_def enums_def by blast
qed

lemma example_lines: "splitlines (generated_text example_header) =
   [''typedef enum '', ''{'', ''  GrB_SUCCESS = 0'', ''} GrB_Info;'', ''typedef enum '', ''{'',
    ''  GxB_DEFAULT = 0'', ''} GxB_Option;'', ''extern GrB_Info GrB_init(int mode);'']"
  by (simp add: example_header_def splitlines_def is_linebreak_def)

lemma example_get_groups: "get_groups (\<lambda>xs. xs) example_header = Inr example_groups"
  unfolding example_groups_def by code_simp

lemma distinct_concat_disjoint:
  "distinct (concat (map snd (filter Q g))) \<Longrightarrow> p \<in> set g \<Longrightarrow> q \<in> set g \<Longrightarrow>
   fst p \<noteq> fst q \<Longrightarrow> Q p \<Longrightarrow> Q q \<Longrightarrow> set (snd p) \<inter> set (snd q) = {}"
  by (induction g) (auto split: if_splits)

text \<open>
  Claim C1, as amended. For every header that \<open>get_groups\<close> accepts, the dictionary
  has the thirteen keys of \<open>group_names\<close>. The eleven line groups (all but the two
  enum groups) hold lines of the generated text only, no line twice, and are pairwise
  disjoint. Every enum typedef is held in an enum group. Every line of the generated
  text is a member of a line group or a line of an enum typedef held in an enum group,
  and \<open>not seen\<close> holds exactly the lines that are in no other line group and in no
  grouped enum typedef.
\<close>

theorem get_groups_classifies:
  assumes "set_order iter" and "get_groups iter a = Inr g"
  shows "map fst g = group_names
    \<and> distinct (lines_of g)
    \<and> (\<forall>p \<in> set g. \<forall>q \<in> set g. fst p \<noteq> fst q \<and> fst p \<notin> set enum_group_names \<and>
          fst q \<notin> set enum_group_names \<longrightarrow> set (snd p) \<inter> set (snd q) = {})
    \<and> set (lines_of g) \<subseteq> set (splitlines (generated_text a))
    \<and> set (enums_of g) = set (VisitEnumTypedef_results a)
    \<and> (\<forall>x \<in> set (splitlines (generated_text a)). x \<in> set (lines_of g) \<or> x \<in> enum_lines g)
    \<and> (\<exists>ns. map_of g ''not seen'' = Some ns \<and>
          set ns = set (splitlines (generated_text a)) - set (lines_of (butlast g)) - enum_lines g)"
proof -
  let ?lines = "splitlines (generated_text a)"
  from get_groups_shape[OF assms] obtain st ns where
    inv: "groups_inv ?lines (VisitEnumTypedef_results a) (butlast group_names) st" and
    ns: "ns = sorted_set iter sort_key_str (set_minus (remdups ?lines) (fst st))" and
    g: "g = snd st @ [(''not seen'', ns)]" and
    en: "set (VisitEnumTypedef_results a) \<subseteq> set (enums_of (snd st))"
    by blast
  have set_ns: "set ns = set ?lines - set (fst st)"
    unfolding ns by (simp add: set_sorted_set[OF assms(1)])
  have dist_ns: "distinct ns"
    unfolding ns by (simp add: distinct_sorted_set[OF assms(1)])
  have keys: "map fst (snd st) = butlast group_names"
    using inv by (simp add: groups_inv_def)
  have seen: "set (fst st) = set (lines_of (snd st)) \<union> enum_lines (snd st)"
    using inv by (simp add: groups_inv_def)
  have lo: "lines_of g = lines_of (snd st) @ ns"
    unfolding g by (simp add: lines_of_def enum_group_names_def)
  have eo: "enums_of g = enums_of (snd st)"
    unfolding g by (simp add: enums_of_def enum_group_names_def)
  have el: "enum_lines g = enum_lines (snd st)"
    by (simp add: enum_lines_def eo)
  have c1: "map fst g = group_names"
    unfolding g using keys by (simp add: group_names_def)
  have c2: "distinct (lines_of g)"
    unfolding lo using inv dist_ns set_ns seen by (auto simp: groups_inv_def)
  have c3: "\<forall>p \<in> set g. \<forall>q \<in> set g. fst p \<noteq> fst q \<and> fst p \<notin> set enum_group_names \<and>
          fst q \<notin> set enum_group_names \<longrightarrow> set (snd p) \<inter> set (snd q) = {}"
  proof (intro ballI impI)
    fix p q assume "p \<in> set g" "q \<in> set g"
      and "fst p \<noteq> fst q \<and> fst p \<notin> set enum_group_names \<and> fst q \<notin> set enum_group_names"
    with c2 show "set (snd p) \<inter> set (snd q) = {}"
      unfolding lines_of_def
      using distinct_concat_disjoint[where Q="\<lambda>p. fst p \<notin> set enum_group_names" and g=g and p=p and q=q]
      by blast
  qed
  have c4: "set (lines_of g) \<subseteq> set ?lines"
    unfolding lo using inv set_ns by (auto simp: groups_inv_def)
  have c5: "set (enums_of g) = set (VisitEnumTypedef_results a)"
    unfolding eo using inv en by (auto simp: groups_inv_def)
  have c6: "\<forall>x \<in> set ?lines. x \<in> set (lines_of g) \<or> x \<in> enum_lines g"
    unfolding lo el using set_ns seen by auto
  have "''not seen'' \<notin> fst ` set (snd st)"
    unfolding set_map[symmetric] keys by (simp add: group_names_def)
  then have "map_of (snd st) ''not seen'' = None"
    by (simp add: map_of_eq_None_iff)
  then have m: "map_of g ''not seen'' = Some ns"
    unfolding g by (simp add: map_add_def)
  have bl: "butlast g = snd st" by (simp add: g)
  have "set ns = set ?lines - set (lines_of (butlast g)) - enum_lines g"
    unfolding bl el set_ns seen by auto
  with m have c7: "\<exists>ns. map_of g ''not seen'' = Some ns \<and>
          set ns = set ?lines - set (lines_of (butlast g)) - enum_lines g" by blast
  from c1 c2 c3 c4 c5 c6 c7 show ?thesis by blast
qed

text \<open>The theorem at the example header, with the identity as iteration order.\<close>

theorem get_groups_classifies_witness:
  "set_order (\<lambda>xs. xs) \<and> get_groups (\<lambda>xs. xs) example_header = Inr example_groups \<and>
   distinct (lines_of example_groups) \<and>
   set (lines_of example_groups) \<subseteq> set (splitlines (generated_text example_header))"
proof -
  have h1: "set_order (\<lambda>xs. xs)" by (simp add: set_order_def)
  have h2: "get_groups (\<lambda>xs. xs) example_header = Inr example_groups"
    by (rule example_get_groups)
  from get_groups_classifies[OF h1 h2] h1 h2 show ?thesis by blast
qed

text \<open>
  Claim C1 as stated fails at the example header: the line \<open>{\<close> of the generated
  text is a member of no group, and it is a line of a typedef in each of the two enum
  groups, so it is not classified into exactly one group.
\<close>

theorem get_groups_enum_lines_counterexample:
  "get_groups (\<lambda>xs. xs) example_header = Inr example_groups \<and>
   ''{'' \<in> set (splitlines (generated_text example_header)) \<and>
   ''{'' \<notin> set (concat (map snd example_groups)) \<and>
   map_of example_groups ''GrB typedef enums'' =
     Some [''typedef enum \<newline>{\<newline>  GrB_SUCCESS = 0\<newline>} GrB_Info;''] \<and>
   map_of example_groups ''GxB typedef enums'' =
     Some [''typedef enum \<newline>{\<newline>  GxB_DEFAULT = 0\<newline>} GxB_Option;''] \<and>
   ''{'' \<in> set (splitlines ''typedef enum \<newline>{\<newline>  GrB_SUCCESS = 0\<newline>} GrB_Info;'') \<and>
   ''{'' \<in> set (splitlines ''typedef enum \<newline>{\<newline>  GxB_DEFAULT = 0\<newline>} GxB_Option;'')"
proof -
  have h2: "get_groups (\<lambda>xs. xs) example_header = Inr example_groups"
    by (rule example_get_groups)
  have h3: "''{'' \<in> set (splitlines (generated_text example_header))"
    by (simp add: example_lines)
  have h4: "''{'' \<notin> set (concat (map snd example_groups))"
    by (simp add: example_groups_def)
  have h5: "map_of example_groups ''GrB typedef enums'' =
     Some [''typedef enum \<newline>{\<newline>  GrB_SUCCESS = 0\<newline>} GrB_Info;'']"
    "map_of example_groups ''GxB typedef enums'' =
     Some [''typedef enum \<newline>{\<newline>  GxB_DEFAULT = 0\<newline>} GxB_Option;'']"
    by (simp_all add: example_groups_def)
  have h6: "''{'' \<in> set (splitlines ''typedef enum \<newline>{\<newline>  GrB_SUCCESS = 0\<newline>} GrB_Info;'')"
    "''{'' \<in> set (splitlines ''typedef enum \<newline>{\<newline>  GxB_DEFAULT = 0\<newline>} GxB_Option;'')"
    by (simp_all add: splitlines_def is_linebreak_def)
  from h2 h3 h4 h5 h6 show ?thesis by blast
qed

subsection \<open>\<open>handle_enums\<close>\<close>

lemma collect_Inr_Cons:
  "collect f (x # xs) = Inr rs \<longleftrightarrow>
     (\<exists>r rs'. f x = Inr r \<and> collect f xs = Inr rs' \<and>
        rs = (case r of None \<Rightarrow> rs' | Some y \<Rightarrow> y # rs'))"
  by (auto split: sum.splits)

lemma handle_field_Inr:
  "handle_field skip field = Inr r \<Longrightarrow>
   r = (if field_survives skip field then Some (clean_field field) else None)"
  by (auto simp: handle_field_def Let_def field_survives_def field_name_def clean_field_def
      split: list.splits if_splits)

lemma collect_handle_field:
  "collect (handle_field skip) fs = Inr nf \<Longrightarrow>
   nf = map clean_field (filter (field_survives skip) fs)"
proof (induction fs arbitrary: nf)
  case Nil
  then show ?case by simp
next
  case (Cons x xs)
  from Cons.prems obtain r rs' where r: "handle_field skip x = Inr r"
    and rs: "collect (handle_field skip) xs = Inr rs'"
    and nf: "nf = (case r of None \<Rightarrow> rs' | Some y \<Rightarrow> y # rs')"
    unfolding collect_Inr_Cons by blast
  from Cons.IH[OF rs] handle_field_Inr[OF r] nf show ?case by simp
qed

lemma drop_last_char_of_last_snoc:
  "drop_last_char_of_last (xs @ [y]) = xs @ [butlast y]"
  by (simp add: drop_last_char_of_last_def)

lemma drop_last_char_of_last_fields:
  assumes "nf \<noteq> []"
  shows "drop_last_char_of_last (a # b # map g nf) =
         a # b # map g (butlast nf) @ [butlast (g (last nf))]"
proof -
  from assms obtain ys y where nf: "nf = ys @ [y]"
    by (cases nf rule: rev_cases) auto
  have e: "a # b # map g (ys @ [y]) = (a # b # map g ys) @ [g y]"
    by simp
  have "drop_last_char_of_last (a # b # map g (ys @ [y])) = (a # b # map g ys) @ [butlast (g y)]"
    unfolding e drop_last_char_of_last_snoc ..
  then show ?thesis unfolding nf by simp
qed

lemma handle_enum_result:
  assumes "handle_enum skip_complex text0 = Inr r"
  shows "\<exists>typedef bracket fs cname.
     unpack_enum (splitlines (str_replace ''enum \<newline>'' ''enum\<newline>'' text0)) =
       Inr (typedef, bracket, fs, cname) \<and>
     (let name = strip (butlast (tl cname));
          new_fields = map clean_field (filter (field_survives skip_complex) fs)
      in if name \<in> set DEPRECATED \<or> (skip_complex \<and> has_complex name) \<or> new_fields = []
         then r = None
         else \<exists>i. r = Some i \<and> info_text i = enum_text new_fields cname \<and>
                info_orig_text i = Some (str_replace ''enum \<newline>'' ''enum\<newline>'' text0))"
proof -
  let ?tx = "str_replace ''enum \<newline>'' ''enum\<newline>'' text0"
  from assms obtain td bracket fs cname where
    u: "unpack_enum (splitlines ?tx) = Inr (td, bracket, fs, cname)"
    by (cases "unpack_enum (splitlines ?tx)")
       (auto simp: handle_enum_def Let_def bind_err_def)
  let ?nm = "strip (butlast (tl cname))"
  let ?nf = "map clean_field (filter (field_survives skip_complex) fs)"
  have "if ?nm \<in> set DEPRECATED \<or> (skip_complex \<and> has_complex ?nm) \<or> ?nf = []
         then r = None
         else \<exists>i. r = Some i \<and> info_text i = enum_text ?nf cname \<and> info_orig_text i = Some ?tx"
  proof (cases "?nm \<in> set DEPRECATED \<or> (skip_complex \<and> has_complex ?nm)")
    case True
    with assms u show ?thesis
      by (auto simp: handle_enum_def Let_def bind_err_def split: if_splits)
  next
    case False
    with assms u obtain nf where
      c: "collect (handle_field skip_complex) fs = Inr nf" and
      ty: "strip td = ''typedef enum''" and br: "bracket = ''{''" and
      r: "r = (if nf = [] then None else
            Some \<lparr>info_text = join ''\<newline>''
                     (drop_last_char_of_last ([strip td, bracket] @ map (\<lambda>f. ''  '' @ f @ '','') nf) @ [cname]),
                  info_orig_text = Some ?tx, info_name = None, info_group = None\<rparr>)"
      by (cases "collect (handle_field skip_complex) fs")
         (auto simp: handle_enum_def Let_def bind_err_def split: if_splits)
    have nf: "nf = ?nf" by (rule collect_handle_field[OF c])
    show ?thesis
    proof (cases "nf = []")
      case True
      with r nf show ?thesis by simp
    next
      case nonempty: False
      define i where "i = \<lparr>info_text = join ''\<newline>''
                     (drop_last_char_of_last ([strip td, bracket] @ map (\<lambda>f. ''  '' @ f @ '','') nf) @ [cname]),
                  info_orig_text = Some ?tx, info_name = None, info_group = None\<rparr>"
      from r nonempty have ri: "r = Some i" by (simp add: i_def)
      have ti: "info_text i = enum_text nf cname"
        by (simp add: i_def drop_last_char_of_last_fields[OF nonempty] enum_text_def ty br
            butlast_append del: join.simps)
      have oi: "info_orig_text i = Some ?tx" by (simp add: i_def)
      from False nonempty ri ti oi show ?thesis
        unfolding nf[symmetric] by auto
    qed
  qed
  with u show ?thesis by (simp add: Let_def)
qed





subsection \<open>\<open>get_group_info\<close>\<close>

lemma bind_err_Inr: "bind_err m f = Inr y \<longleftrightarrow> (\<exists>x. m = Inr x \<and> f x = Inr y)"
  by (cases m) (simp_all add: bind_err_def)

lemma handle_group_Inr:
  "handle_group h groups key rv = Inr rv' \<longleftrightarrow>
     (\<exists>grp infos. map_of groups key = Some grp \<and> h grp = Inr infos \<and>
        rv' = AList.update key (map Dict infos) rv)"
  by (auto simp: handle_group_def bind_err_Inr getitem_Inr)

lemma check_count_Inr:
  "check_count nodes groups key = Inr u \<longleftrightarrow>
     (\<exists>grp. map_of groups key = Some grp \<and> length nodes = length grp)"
  by (auto simp: check_count_def bind_err_Inr getitem_Inr)

lemma map_of_copy_rest:
  "map_of (copy_rest groups keys rv) k =
     (if k \<in> set keys \<and> map_of groups k \<noteq> None
      then Some (map Str (the (map_of groups k))) else map_of rv k)"
proof (induction keys arbitrary: rv)
  case Nil
  then show ?case by (simp add: copy_rest_def)
next
  case (Cons x xs)
  have step: "copy_rest groups (x # xs) rv =
      copy_rest groups xs
        (case map_of groups x of Some lines \<Rightarrow> AList.update x (map Str lines) rv | None \<Rightarrow> rv)"
    by (simp add: copy_rest_def)
  show ?case
    unfolding step Cons.IH
    by (auto simp: update_conv' split: option.splits)
qed

lemma get_group_info_shape:
  assumes "get_group_info iter skip groups a = Inr rv"
  shows "\<exists>gc1 gc2 go1 go2 ge1 ge2 gt1 gt2 gtf gm1 gm2 gm3 c1 c2 o1 o2 e1 e2 t1 t2 tf m1 m2 m3.
     map_of groups ''GrB const'' = Some gc1 \<and> handle_constants skip gc1 = Inr c1 \<and>
     map_of groups ''GxB const'' = Some gc2 \<and> handle_constants skip gc2 = Inr c2 \<and>
     map_of groups ''GrB objects'' = Some go1 \<and> handle_objects skip go1 = Inr o1 \<and>
     map_of groups ''GxB objects'' = Some go2 \<and> handle_objects skip go2 = Inr o2 \<and>
     map_of groups ''GrB typedef enums'' = Some ge1 \<and> handle_enums skip ge1 = Inr e1 \<and>
     map_of groups ''GxB typedef enums'' = Some ge2 \<and> handle_enums skip ge2 = Inr e2 \<and>
     map_of groups ''GrB typedef'' = Some gt1 \<and> handle_typedefs skip gt1 = Inr t1 \<and>
     map_of groups ''GxB typedef'' = Some gt2 \<and> handle_typedefs skip gt2 = Inr t2 \<and>
     map_of groups ''GxB typedef funcs'' = Some gtf \<and> handle_typedef_funcs skip gtf = Inr tf \<and>
     map_of groups ''GrB methods'' = Some gm1 \<and> length (nodes_with ''GrB_'' a) = length gm1 \<and>
     map_of groups ''GxB methods'' = Some gm2 \<and> length (nodes_with ''GxB_'' a) = length gm2 \<and>
     map_of groups ''GB methods'' = Some gm3 \<and> length (nodes_with ''GB_'' a) = length gm3 \<and>
     collect (handle_function_node skip) (nodes_with ''GrB_'' a) = Inr m1 \<and>
     collect (handle_function_node skip) (nodes_with ''GxB_'' a) = Inr m2 \<and>
     collect (handle_function_node skip) (nodes_with ''GB_'' a) = Inr m3 \<and>
     rv = copy_rest groups (iter (set_minus (remdups (map fst groups)) info_keys))
            [(''GrB const'', map Dict c1), (''GxB const'', map Dict c2),
             (''GrB objects'', map Dict o1), (''GxB objects'', map Dict o2),
             (''GrB typedef enums'', map Dict e1), (''GxB typedef enums'', map Dict e2),
             (''GrB typedef'', map Dict t1), (''GxB typedef'', map Dict t2),
             (''GxB typedef funcs'', map Dict tf),
             (''GrB methods'', sorted_funcs m1), (''GxB methods'', sorted_funcs m2),
             (''GB methods'', sorted_funcs m3)]"
  using assms
  unfolding get_group_info_def Let_def bind_err_Inr handle_group_Inr check_count_Inr
    nodes_with_def[symmetric] copy_rest_def[symmetric]
  by (auto simp: info_keys_def)

lemma collect_filter:
  assumes "collect f xs = Inr ys"
    and "\<And>x r. x \<in> set xs \<Longrightarrow> f x = Inr r \<Longrightarrow>
           (r = None \<longleftrightarrow> \<not> keep x) \<and> (\<forall>i. r = Some i \<longrightarrow> h i = g x)"
  shows "map h ys = map g (filter keep xs)"
  using assms
proof (induction xs arbitrary: ys)
  case Nil
  then show ?case by simp
next
  case (Cons x xs)
  from Cons.prems(1) obtain r rs' where r: "f x = Inr r"
    and rs: "collect f xs = Inr rs'"
    and ys: "ys = (case r of None \<Rightarrow> rs' | Some y \<Rightarrow> y # rs')"
    unfolding collect_Inr_Cons by blast
  have ih: "map h rs' = map g (filter keep xs)"
    by (rule Cons.IH[OF rs]) (use Cons.prems(2) in auto)
  from Cons.prems(2)[of x r] r
  have "(r = None \<longleftrightarrow> \<not> keep x) \<and> (\<forall>i. r = Some i \<longrightarrow> h i = g x)" by simp
  with ih ys show ?case by (cases r) auto
qed

lemma handle_object_Inr:
  "handle_object skip line = Inr r \<Longrightarrow>
   (r = None \<longleftrightarrow> \<not> keep_decl skip line) \<and> (\<forall>i. r = Some i \<longrightarrow> i = text_info line)"
  by (auto simp: handle_object_def keep_decl_def decl_name_def Let_def
      split: list.splits if_splits)

lemma handle_typedef_Inr:
  "handle_typedef skip line = Inr r \<Longrightarrow>
   (r = None \<longleftrightarrow> \<not> keep_decl skip line) \<and> (\<forall>i. r = Some i \<longrightarrow> i = text_info line)"
  by (auto simp: handle_typedef_def keep_decl_def decl_name_def Let_def
      split: list.splits if_splits)

lemma handle_constant_Inr:
  "handle_constant skip line = Inr r \<Longrightarrow>
   (r = None \<longleftrightarrow> \<not> keep_const skip line) \<and> (\<forall>i. r = Some i \<longrightarrow> i = text_info line)"
  by (auto simp: handle_constant_def keep_const_def decl_name_def Let_def
      split: list.splits if_splits)

lemma handle_typedef_func_Inr:
  "handle_typedef_func skip line = Inr r \<Longrightarrow>
   (r = None \<longleftrightarrow> \<not> keep_typedef_func skip line) \<and> (\<forall>i. r = Some i \<longrightarrow> i = text_info line)"
  by (auto simp: handle_typedef_func_def keep_typedef_func_def split: if_splits)

lemma handle_function_node_Inr:
  "handle_function_node skip node = Inr r \<Longrightarrow>
   (r = None \<longleftrightarrow> \<not> keep_node skip node) \<and>
   (\<forall>i. r = Some i \<longrightarrow>
      (info_name i, info_text i) = (Some (node_name node), node_text node @ '';''))"
  by (auto simp: handle_function_node_def keep_node_def Let_def bind_err_Inr
      split: if_splits)

lemma unpack_enum_Inr:
  "unpack_enum ls = Inr (td, br, fs, cn) \<Longrightarrow> fs = butlast (drop 2 ls) \<and> cn = last ls"
  by (auto simp: unpack_enum_def split: list.splits if_splits)

lemma handle_enum_Inr:
  assumes "handle_enum skip text0 = Inr r"
  shows "(r = None \<longleftrightarrow> \<not> keep_enum skip text0) \<and>
         (\<forall>i. r = Some i \<longrightarrow> info_orig_text i = Some (enum_norm text0) \<and>
            info_text i = emitted_enum_text skip text0)"
proof -
  from handle_enum_result[OF assms] obtain td br fs cname where
    u: "unpack_enum (splitlines (enum_norm text0)) = Inr (td, br, fs, cname)" and
    c: "if strip (butlast (tl cname)) \<in> set DEPRECATED \<or>
           (skip \<and> has_complex (strip (butlast (tl cname)))) \<or>
           map clean_field (filter (field_survives skip) fs) = []
        then r = None
        else \<exists>i. r = Some i \<and>
               info_text i = enum_text (map clean_field (filter (field_survives skip) fs)) cname \<and>
               info_orig_text i = Some (enum_norm text0)"
    unfolding enum_norm_def Let_def by blast
  from unpack_enum_Inr[OF u] have fs: "fs = enum_fields text0"
    and cn: "cname = last (splitlines (enum_norm text0))"
    by (simp_all add: enum_fields_def)
  have nm: "strip (butlast (tl cname)) = enum_name text0"
    by (simp add: cn enum_name_def)
  from c show ?thesis
    unfolding nm fs[symmetric] cn[symmetric] keep_enum_def emitted_enum_text_def
    by (auto split: if_splits)
qed

lemma lookup_info_key:
  assumes "set_order iter" "k \<in> set info_keys"
  shows "map_of (copy_rest groups (iter (set_minus (remdups (map fst groups)) info_keys)) rv0) k
           = map_of rv0 k"
  using assms by (simp add: map_of_copy_rest set_iter)

lemma collect_text_info:
  assumes "collect f xs = Inr ys"
    and "\<And>x r. f x = Inr r \<Longrightarrow>
           (r = None \<longleftrightarrow> \<not> keep x) \<and> (\<forall>i. r = Some i \<longrightarrow> i = text_info x)"
  shows "ys = map text_info (filter keep xs)"
  using collect_filter[where h="\<lambda>i. i" and g=text_info and keep=keep, OF assms(1)] assms(2)
  by simp

lemma set_sorted_funcs: "set (sorted_funcs m) = Dict ` set m"
  by (simp add: sorted_funcs_def)

end
